theory Spec2Isabelle
  imports Main
begin

section \<open>JavaScript values and strings\<close>

text \<open>
  The newsletter backend exists in two variants in the repository: \<^verbatim>\<open>src/index.js\<close> and
  \<^verbatim>\<open>src/unnamed/part_000\<close>. Both define the same routes; they differ in the format check
  of \<^verbatim>\<open>/subscribe\<close>, in the duplicate policy, in the secret check and the delivery
  bookkeeping of \<^verbatim>\<open>/publish\<close>, and in the answer of \<^verbatim>\<open>/unsubscribe\<close>. Helpers that are
  literally the same in both files (\<^verbatim>\<open>safeSend\<close>, \<^verbatim>\<open>normEmail\<close>, the schemas, the
  notification template) are modelled once; each route handler is modelled once per file,
  prefixed \<open>part000_\<close> or \<open>index_\<close>.

  A request field is a JavaScript value. The model covers text, booleans, \<^verbatim>\<open>null\<close>,
  and \<^verbatim>\<open>undefined\<close> for an absent field; numbers, arrays and objects in a JSON body
  are not modelled.
  Strings are lists of 8-bit characters: ASCII text is exact, a character outside ASCII
  stands as its UTF-8 bytes, and case mapping and white space outside ASCII are not modelled.
\<close>

datatype jsval = VUndefined | VNull | VBool bool | VStr string

text \<open>Truthiness, \<^verbatim>\<open>a || b\<close>, \<^verbatim>\<open>a && b\<close> and \<^verbatim>\<open>String(v)\<close> (also what a template
  literal does with an interpolated value).\<close>

fun truthy :: "jsval \<Rightarrow> bool" where
  "truthy VUndefined = False"
| "truthy VNull = False"
| "truthy (VBool b) = b"
| "truthy (VStr s) = (s \<noteq> [])"

definition js_or :: "jsval \<Rightarrow> jsval \<Rightarrow> jsval" where
  "js_or a b = (if truthy a then a else b)"

definition js_and :: "jsval \<Rightarrow> jsval \<Rightarrow> jsval" where
  "js_and a b = (if truthy a then b else a)"

fun ToString :: "jsval \<Rightarrow> string" where
  "ToString VUndefined = ''undefined''"
| "ToString VNull = ''null''"
| "ToString (VBool b) = (if b then ''true'' else ''false'')"
| "ToString (VStr s) = s"

text \<open>\<^verbatim>\<open>s || d\<close> on a value known to be a string.\<close>

definition str_or :: "string \<Rightarrow> string \<Rightarrow> string" where
  "str_or s d = (if s \<noteq> [] then s else d)"

definition isWhiteSpace :: "char \<Rightarrow> bool" where
  "isWhiteSpace c = (c \<in> set [CHR 0x09, CHR 0x0A, CHR 0x0B, CHR 0x0C, CHR 0x0D, CHR 0x20])"

definition trim :: "string \<Rightarrow> string" where
  "trim s = rev (dropWhile isWhiteSpace (rev (dropWhile isWhiteSpace s)))"

definition lowerChar :: "char \<Rightarrow> char" where
  "lowerChar c =
     (case map_of (zip ''ABCDEFGHIJKLMNOPQRSTUVWXYZ'' ''abcdefghijklmnopqrstuvwxyz'') c of
        Some d \<Rightarrow> d
      | None \<Rightarrow> c)"

definition toLowerCase :: "string \<Rightarrow> string" where
  "toLowerCase s = map lowerChar s"

fun startsWith :: "string \<Rightarrow> string \<Rightarrow> bool" where
  "startsWith s [] = True"
| "startsWith [] (c # cs) = False"
| "startsWith (x # xs) (c # cs) = (x = c \<and> startsWith xs cs)"

text \<open>\<^verbatim>\<open>s.includes(sub)\<close>: \<open>sub\<close> occurs in \<open>s\<close> as a contiguous piece.\<close>

fun str_includes :: "string \<Rightarrow> string \<Rightarrow> bool" where
  "str_includes [] sub = (sub = [])"
| "str_includes (x # xs) sub = (startsWith (x # xs) sub \<or> str_includes xs sub)"

text \<open>Decimal text of a number, as a template literal prints a count.\<close>

definition digit :: "nat \<Rightarrow> char" where
  "digit d = ''0123456789'' ! d"

function showNat :: "nat \<Rightarrow> string" where
  "showNat n = (if n < 10 then [digit n] else showNat (n div 10) @ [digit (n mod 10)])"
  by pat_completeness auto
termination
  by (relation "measure (\<lambda>n. n)") auto

declare showNat.simps [simp del]

text \<open>\<^verbatim>\<open>encodeURIComponent\<close>: every byte outside the unreserved set becomes \<open>%XX\<close>.\<close>

definition unreserved :: "char \<Rightarrow> bool" where
  "unreserved c =
     (c \<in> set (''ABCDEFGHIJKLMNOPQRSTUVWXYZabcdefghijklmnopqrstuvwxyz0123456789-_.!~*()''
               @ [CHR 0x27]))"

definition hexDigit :: "nat \<Rightarrow> char" where
  "hexDigit d = ''0123456789ABCDEF'' ! d"

definition percentEncode :: "char \<Rightarrow> string" where
  "percentEncode c =
     (if unreserved c then [c]
      else [CHR ''%'', hexDigit ((of_char c :: nat) div 16), hexDigit ((of_char c :: nat) mod 16)])"

definition encodeURIComponent :: "string \<Rightarrow> string" where
  "encodeURIComponent s = concat (map percentEncode s)"

text \<open>\<^verbatim>\<open>const normEmail = e => String(e).trim().toLowerCase();\<close>\<close>

definition normEmail :: "jsval \<Rightarrow> string" where
  "normEmail e = toLowerCase (trim (ToString e))"

text \<open>\<^verbatim>\<open>xs.join(', ')\<close> on a list of strings.\<close>

fun join :: "string \<Rightarrow> string list \<Rightarrow> string" where
  "join sep [] = []"
| "join sep [x] = x"
| "join sep (x # y # ys) = x @ sep @ join sep (y # ys)"

section \<open>Data model\<close>

text \<open>The two mongoose schemas, the mail options handed to the transport, and the JSON
  a handler answers with.\<close>

record subscriber =
  sub_email :: string
  sub_name :: string
  sub_createdAt :: nat

record post =
  post_id :: string
  post_title :: string
  post_excerpt :: string
  post_content :: string
  post_postUrl :: string
  post_attachmentUrl :: "string option"
  post_attachmentName :: "string option"
  post_sendFull :: bool
  post_publishedAt :: nat

record attachment =
  att_filename :: string
  att_path :: string

record mail =
  mail_from :: string
  mail_to :: string
  mail_subject :: string
  mail_html :: string
  mail_attachments :: "attachment list option"

datatype json =
    JNull
  | JBool bool
  | JNum nat
  | JStr string
  | JArr "json list"
  | JObj "(string \<times> json) list"

text \<open>A handler answers with a status and a JSON body. \<open>NoReply\<close> is a handler whose
  promise rejects outside every \<^verbatim>\<open>try\<close>: no answer is written.\<close>

datatype reply = Reply nat json | NoReply

fun jfield :: "string \<Rightarrow> json \<Rightarrow> json option" where
  "jfield k (JObj kvs) = map_of kvs k"
| "jfield k _ = None"

fun reply_status :: "reply \<Rightarrow> nat option" where
  "reply_status (Reply st b) = Some st"
| "reply_status NoReply = None"

fun reply_field :: "string \<Rightarrow> reply \<Rightarrow> json option" where
  "reply_field k (Reply st b) = jfield k b"
| "reply_field k NoReply = None"

text \<open>An error thrown by the database driver: \<^verbatim>\<open>err.code\<close> and \<^verbatim>\<open>err.message\<close>.\<close>

datatype dberr = DbError (err_code: "nat option") (err_message: string)

definition duplicate_key :: dberr where
  "duplicate_key = DbError (Some 11000) ''E11000 duplicate key error''"

text \<open>The process environment read at startup (each variable is required to be set).\<close>

record config =
  FROM_EMAIL :: string
  FROM_NAME :: string
  EMAIL_USER :: string
  ADMIN_EMAIL :: string
  PUBLISH_SECRET :: string

text \<open>What the outside world decides during one request: the clock, the outcome of each
  call of the mail transport (by the number of earlier attempts and the message), the
  identifier the store assigns to a new post, and whether a store operation throws.\<close>

record env =
  now :: nat
  localeString :: string
  fullYear :: nat
  sendMail_ok :: "nat \<Rightarrow> mail \<Rightarrow> bool"
  new_id :: string
  find_error :: "dberr option"
  findOne_error :: "dberr option"
  create_error :: "dberr option"
  countDocuments_error :: "dberr option"
  deleteOne_error :: "dberr option"
  Post_create_error :: "dberr option"

record upload =
  file_filename :: string
  file_originalname :: string
  file_path :: string

record request =
  x_publish_secret :: "string option"
  req_body :: "(string \<times> jsval) list"
  req_file :: "upload option"
  req_protocol :: string
  req_host :: string

definition header :: "string option \<Rightarrow> jsval" where
  "header h = (case h of None \<Rightarrow> VUndefined | Some s \<Rightarrow> VStr s)"

definition body_field :: "request \<Rightarrow> string \<Rightarrow> jsval" where
  "body_field req k = (case map_of (req_body req) k of None \<Rightarrow> VUndefined | Some v \<Rightarrow> v)"

text \<open>The state: the two collections, and the chronological record of every store write and
  every message handed to the mail transport.\<close>

datatype event =
    SubscriberCreated subscriber
  | SubscriberDeleted string
  | PostCreated post
  | MailAttempt mail

record world =
  subscribers :: "subscriber list"
  posts :: "post list"
  history :: "event list"

fun attempts :: "event list \<Rightarrow> mail list" where
  "attempts [] = []"
| "attempts (MailAttempt m # evs) = m # attempts evs"
| "attempts (ev # evs) = attempts evs"

section \<open>Store and mail operations\<close>

definition Subscriber_find :: "env \<Rightarrow> world \<Rightarrow> dberr + subscriber list" where
  "Subscriber_find e w =
     (case find_error e of Some err \<Rightarrow> Inl err | None \<Rightarrow> Inr (subscribers w))"

definition Subscriber_findOne :: "env \<Rightarrow> string \<Rightarrow> world \<Rightarrow> dberr + subscriber option" where
  "Subscriber_findOne e em w =
     (case findOne_error e of
        Some err \<Rightarrow> Inl err
      | None \<Rightarrow> Inr (find (\<lambda>s. sub_email s = em) (subscribers w)))"

text \<open>\<^verbatim>\<open>Subscriber.create\<close>: the unique index on \<open>email\<close> rejects a second record with
  error code 11000.\<close>

definition Subscriber_create :: "env \<Rightarrow> string \<Rightarrow> string \<Rightarrow> world \<Rightarrow> dberr + world" where
  "Subscriber_create e em nm w =
     (case create_error e of
        Some err \<Rightarrow> Inl err
      | None \<Rightarrow>
          if em \<in> set (map sub_email (subscribers w)) then Inl duplicate_key
          else
            let s = \<lparr>sub_email = em, sub_name = nm, sub_createdAt = now e\<rparr>
            in Inr (w\<lparr>subscribers := subscribers w @ [s],
                      history := history w @ [SubscriberCreated s]\<rparr>))"

definition Subscriber_countDocuments :: "env \<Rightarrow> world \<Rightarrow> dberr + nat" where
  "Subscriber_countDocuments e w =
     (case countDocuments_error e of
        Some err \<Rightarrow> Inl err
      | None \<Rightarrow> Inr (length (subscribers w)))"

text \<open>\<^verbatim>\<open>Subscriber.deleteOne({ email })\<close>: removes the first matching record and reports
  \<^verbatim>\<open>deletedCount\<close>.\<close>

definition Subscriber_deleteOne :: "env \<Rightarrow> string \<Rightarrow> world \<Rightarrow> dberr + (nat \<times> world)" where
  "Subscriber_deleteOne e em w =
     (case deleteOne_error e of
        Some err \<Rightarrow> Inl err
      | None \<Rightarrow>
          (case find (\<lambda>s. sub_email s = em) (subscribers w) of
             None \<Rightarrow> Inr (0, w)
           | Some s \<Rightarrow>
               Inr (1, w\<lparr>subscribers := remove1 s (subscribers w),
                         history := history w @ [SubscriberDeleted em]\<rparr>)))"

definition Post_create :: "env \<Rightarrow> post \<Rightarrow> world \<Rightarrow> dberr + world" where
  "Post_create e p w =
     (case Post_create_error e of
        Some err \<Rightarrow> Inl err
      | None \<Rightarrow> Inr (w\<lparr>posts := posts w @ [p], history := history w @ [PostCreated p]\<rparr>))"

text \<open>\<^verbatim>\<open>safeSend\<close> hands the message to the transport once and turns a throw into
  \<^verbatim>\<open>false\<close>; it never throws itself.\<close>

definition safeSend :: "env \<Rightarrow> mail \<Rightarrow> world \<Rightarrow> bool \<times> world" where
  "safeSend e m w =
     (sendMail_ok e (length (attempts (history w))) m,
      w\<lparr>history := history w @ [MailAttempt m]\<rparr>)"

section \<open>Message templates\<close>

text \<open>The pieces of the notification template of \<^verbatim>\<open>/publish\<close>, the same text in both files: the hint shown under an excerpt, the attachment block, and the page around them.\<close>

definition fullArticleHint :: "string" where
  \<open>fullArticleHint =
     concat
     [''<div style="margin:20px 0;padding:15px;background:#f8f9fa;border-radius:8px;">\<newline>'',
      ''                  <p style="margin:0;font-style:italic;">Full article available at the link below...</p>\<newline>'',
      ''                </div>'']\<close>

text \<open>\<^verbatim>\<open>attachmentUrl ? `...` : ''\<close>\<close>

definition attachmentBlock :: "jsval \<Rightarrow> jsval \<Rightarrow> string" where
  \<open>attachmentBlock attachmentUrl attachmentName =
     (if truthy attachmentUrl then
       concat
         [''<div style="margin-top:20px;padding:15px;background:#f8f9fa;border-radius:8px;">\<newline>'',
          ''                  <p style="margin:0 0 10px 0;"><strong>Attachment:</strong></p>\<newline>'',
          ''                  <a href="'',
          ToString attachmentUrl,
          ''" \<newline>'',
          ''                     style="color:#3498db;text-decoration:none;font-size:14px;">\<newline>'',
          ''                    '',
          [CHR 0xF0, CHR 0x9F, CHR 0x93, CHR 0x8E],
          '' '',
          ToString (js_or attachmentName (VStr ''Download attached file'')),
          ''\<newline>'',
          ''                  </a>\<newline>'',
          ''                </div>'']
      else '''')\<close>

text \<open>\<open>hint\<close> is the condition of the conditional that guards the hint; the two files compute it differently.\<close>

definition publishHtml :: "config \<Rightarrow> env \<Rightarrow> jsval \<Rightarrow> jsval \<Rightarrow> bool \<Rightarrow> jsval \<Rightarrow> jsval \<Rightarrow> jsval \<Rightarrow> string \<Rightarrow> string" where
  \<open>publishHtml cfg e title emailBody hint postUrl attachmentUrl attachmentName unsubscribeLink =
     concat
     [''\<newline>'',
      ''<!DOCTYPE html>\<newline>'',
      ''<html lang="en">\<newline>'',
      ''<head>\<newline>'',
      ''  <meta charset="UTF-8">\<newline>'',
      ''  <title>'',
      ToString title,
      ''</title>\<newline>'',
      ''</head>\<newline>'',
      ''<body style="margin:0;padding:0;background:#f5f7fb;font-family:Inter,Segoe UI,Arial,sans-serif;">\<newline>'',
      ''  <table width="100%" cellpadding="0" cellspacing="0">\<newline>'',
      ''    <tr>\<newline>'',
      ''      <td align="center" style="padding:32px 16px;">\<newline>'',
      ''        <table width="600" cellpadding="0" cellspacing="0"\<newline>'',
      ''          style="background:#ffffff;border-radius:10px;box-shadow:0 10px 30px rgba(0,0,0,0.08);overflow:hidden;">\<newline>'',
      ''          \<newline>'',
      ''          <!-- Header -->\<newline>'',
      ''          <tr>\<newline>'',
      ''            <td style="background:#2c3e50;padding:20px 24px;color:#ffffff;">\<newline>'',
      ''              <h2 style="margin:0;font-size:20px;">\<newline>'',
      ''                '',
      FROM_NAME cfg,
      '' '',
      [CHR 0xC2, CHR 0xB7],
      '' New Post\<newline>'',
      ''              </h2>\<newline>'',
      ''            </td>\<newline>'',
      ''          </tr>\<newline>'',
      ''\<newline>'',
      ''          <!-- Content -->\<newline>'',
      ''          <tr>\<newline>'',
      ''            <td style="padding:24px;color:#222;">\<newline>'',
      ''              <h1 style="margin-top:0;font-size:22px;">\<newline>'',
      ''                '',
      ToString title,
      ''\<newline>'',
      ''              </h1>\<newline>'',
      ''\<newline>'',
      ''              <div style="font-size:15px;line-height:1.7;color:#333;">\<newline>'',
      ''                '',
      ToString emailBody,
      ''\<newline>'',
      ''              </div>\<newline>'',
      ''\<newline>'',
      ''              '',
      (if hint then fullArticleHint else ''''),
      ''\<newline>'',
      ''\<newline>'',
      ''              <p style="margin-top:20px;">\<newline>'',
      ''                <a href="'',
      ToString postUrl,
      ''"\<newline>'',
      ''                   style="display:inline-block;background:#3498db;color:#fff;\<newline>'',
      ''                          padding:10px 16px;border-radius:999px;\<newline>'',
      ''                          text-decoration:none;font-size:14px;">\<newline>'',
      ''                  Read full article '',
      [CHR 0xE2, CHR 0x86, CHR 0x92],
      ''\<newline>'',
      ''                </a>\<newline>'',
      ''              </p>\<newline>'',
      ''              \<newline>'',
      ''              '',
      attachmentBlock attachmentUrl attachmentName,
      ''\<newline>'',
      ''            </td>\<newline>'',
      ''          </tr>\<newline>'',
      ''\<newline>'',
      ''          <!-- Footer -->\<newline>'',
      ''          <tr>\<newline>'',
      ''            <td style="background:#fafafa;padding:18px 24px;font-size:12px;color:#777;">\<newline>'',
      ''              <p style="margin:0;">\<newline>'',
      ''                You are receiving this email because you subscribed to\<newline>'',
      ''                <strong>'',
      FROM_NAME cfg,
      ''</strong>.\<newline>'',
      ''              </p>\<newline>'',
      ''              <p style="margin:6px 0 0 0;">\<newline>'',
      ''                <a href="'',
      unsubscribeLink,
      ''" style="color:#777;text-decoration:underline;">\<newline>'',
      ''                  Unsubscribe\<newline>'',
      ''                </a> | \<newline>'',
      ''                '',
      [CHR 0xC2, CHR 0xA9],
      '' '',
      showNat (fullYear e),
      '' '',
      FROM_NAME cfg,
      ''\<newline>'',
      ''              </p>\<newline>'',
      ''            </td>\<newline>'',
      ''          </tr>\<newline>'',
      ''\<newline>'',
      ''        </table>\<newline>'',
      ''      </td>\<newline>'',
      ''    </tr>\<newline>'',
      ''  </table>\<newline>'',
      ''</body>\<newline>'',
      ''</html>\<newline>'',
      ''      '']\<close>

text \<open>The welcome message of \<^verbatim>\<open>/subscribe\<close> in \<^verbatim>\<open>part_000\<close>.\<close>

definition part000_welcomeHtml :: "config \<Rightarrow> jsval \<Rightarrow> string" where
  \<open>part000_welcomeHtml cfg name =
     concat
     [''\<newline>'',
      ''    <!DOCTYPE html>\<newline>'',
      ''    <html>\<newline>'',
      ''    <body style="margin:0;background:#f4f6f8;font-family:Arial,sans-serif;">\<newline>'',
      ''      <table width="100%" cellpadding="0" cellspacing="0">\<newline>'',
      ''        <tr>\<newline>'',
      ''          <td align="center" style="padding:30px;">\<newline>'',
      ''            <table width="600" style="background:#ffffff;padding:30px;border-radius:6px;">\<newline>'',
      ''              <tr>\<newline>'',
      ''                <td>\<newline>'',
      ''                  <h2 style="color:#222;">Welcome, '',
      ToString (js_or name (VStr ''there'')),
      '' '',
      [CHR 0xF0, CHR 0x9F, CHR 0x91, CHR 0x8B],
      ''</h2>\<newline>'',
      ''                  <p style="color:#444;font-size:15px;line-height:1.6;">\<newline>'',
      ''                    Thanks for subscribing to <strong>'',
      FROM_NAME cfg,
      ''</strong>.\<newline>'',
      ''                  </p>\<newline>'',
      ''                  <p style="color:#444;font-size:15px;line-height:1.6;">\<newline>'',
      ''                    You'',
      [CHR 0x27],
      ''ll receive updates whenever we publish something new.\<newline>'',
      ''                  </p>\<newline>'',
      ''                  <hr style="margin:25px 0;">\<newline>'',
      ''                  <p style="font-size:13px;color:#777;">\<newline>'',
      ''                    '',
      [CHR 0xE2, CHR 0x80, CHR 0x94],
      '' '',
      FROM_NAME cfg,
      ''<br>\<newline>'',
      ''                    '',
      FROM_EMAIL cfg,
      ''\<newline>'',
      ''                  </p>\<newline>'',
      ''                </td>\<newline>'',
      ''              </tr>\<newline>'',
      ''            </table>\<newline>'',
      ''          </td>\<newline>'',
      ''        </tr>\<newline>'',
      ''      </table>\<newline>'',
      ''    </body>\<newline>'',
      ''    </html>\<newline>'',
      ''    '']\<close>

text \<open>The welcome message in \<^verbatim>\<open>index.js\<close>: it names \<^verbatim>\<open>EMAIL_USER\<close> where the other file names \<^verbatim>\<open>FROM_NAME\<close>.\<close>

definition index_welcomeHtml :: "config \<Rightarrow> jsval \<Rightarrow> string" where
  \<open>index_welcomeHtml cfg name =
     concat
     [''\<newline>'',
      ''    <!DOCTYPE html>\<newline>'',
      ''    <html>\<newline>'',
      ''    <body style="margin:0;background:#f4f6f8;font-family:Arial,sans-serif;">\<newline>'',
      ''      <table width="100%" cellpadding="0" cellspacing="0">\<newline>'',
      ''        <tr>\<newline>'',
      ''          <td align="center" style="padding:30px;">\<newline>'',
      ''            <table width="600" style="background:#ffffff;padding:30px;border-radius:6px;">\<newline>'',
      ''              <tr>\<newline>'',
      ''                <td>\<newline>'',
      ''                  <h2 style="color:#222;">Welcome, '',
      ToString (js_or name (VStr ''there'')),
      '' '',
      [CHR 0xF0, CHR 0x9F, CHR 0x91, CHR 0x8B],
      ''</h2>\<newline>'',
      ''                  <p style="color:#444;font-size:15px;line-height:1.6;">\<newline>'',
      ''                    Thanks for subscribing to <strong>'',
      EMAIL_USER cfg,
      ''</strong>.\<newline>'',
      ''                  </p>\<newline>'',
      ''                  <p style="color:#444;font-size:15px;line-height:1.6;">\<newline>'',
      ''                    You'',
      [CHR 0x27],
      ''ll receive updates whenever we publish something new.\<newline>'',
      ''                  </p>\<newline>'',
      ''                  <hr style="margin:25px 0;">\<newline>'',
      ''                  <p style="font-size:13px;color:#777;">\<newline>'',
      ''                    '',
      [CHR 0xE2, CHR 0x80, CHR 0x94],
      '' '',
      FROM_NAME cfg,
      ''<br>\<newline>'',
      ''                    '',
      FROM_EMAIL cfg,
      ''\<newline>'',
      ''                  </p>\<newline>'',
      ''                </td>\<newline>'',
      ''              </tr>\<newline>'',
      ''            </table>\<newline>'',
      ''          </td>\<newline>'',
      ''        </tr>\<newline>'',
      ''      </table>\<newline>'',
      ''    </body>\<newline>'',
      ''    </html>\<newline>'',
      ''    '']\<close>

text \<open>The administrator's note about a new subscriber (the same text in both files); \<open>totalCount\<close> is what \<^verbatim>\<open>await Subscriber.countDocuments()\<close> gave.\<close>

definition subscribeAdminHtml :: "env \<Rightarrow> string \<Rightarrow> jsval \<Rightarrow> nat \<Rightarrow> string" where
  \<open>subscribeAdminHtml e email name totalCount =
     concat
     [''\<newline>'',
      ''    <!DOCTYPE html>\<newline>'',
      ''    <html>\<newline>'',
      ''    <body style="font-family:Arial,sans-serif;background:#f4f6f8;padding:20px;">\<newline>'',
      ''      <div style="max-width:600px;background:#fff;padding:20px;border-radius:6px;">\<newline>'',
      ''        <h3>New Subscriber</h3>\<newline>'',
      ''        <p><strong>Email:</strong> '',
      email,
      ''</p>\<newline>'',
      ''        <p><strong>Name:</strong> '',
      ToString (js_or name (VStr ''-'')),
      ''</p>\<newline>'',
      ''        <p><strong>Time:</strong> '',
      localeString e,
      ''</p>\<newline>'',
      ''        <p><strong>Total subscribers:</strong> '',
      showNat totalCount,
      ''</p>\<newline>'',
      ''      </div>\<newline>'',
      ''    </body>\<newline>'',
      ''    </html>\<newline>'',
      ''    '']\<close>

text \<open>The administrator's summary of a publication in \<^verbatim>\<open>part_000\<close>.\<close>

definition part000_publishAdminHtml :: "env \<Rightarrow> jsval \<Rightarrow> nat \<Rightarrow> string list \<Rightarrow> nat \<Rightarrow> jsval \<Rightarrow> jsval \<Rightarrow> jsval \<Rightarrow> string" where
  \<open>part000_publishAdminHtml e title sentCount failedEmails totalCount attachmentUrl attachmentName postUrl =
     concat
     [''\<newline>'',
      ''    <!DOCTYPE html>\<newline>'',
      ''    <html>\<newline>'',
      ''    <body style="font-family:Arial,sans-serif;background:#f4f6f8;padding:20px;">\<newline>'',
      ''      <div style="max-width:600px;background:#fff;padding:20px;border-radius:6px;">\<newline>'',
      ''        <h3>Post Published Successfully</h3>\<newline>'',
      ''        <p><strong>Title:</strong> '',
      ToString title,
      ''</p>\<newline>'',
      ''        <p><strong>Sent to:</strong> '',
      showNat sentCount,
      '' subscribers</p>\<newline>'',
      ''        <p><strong>Failed to send:</strong> '',
      showNat (length failedEmails),
      ''</p>\<newline>'',
      ''        <p><strong>Total subscribers:</strong> '',
      showNat totalCount,
      ''</p>\<newline>'',
      ''        <p><strong>Time:</strong> '',
      localeString e,
      ''</p>\<newline>'',
      ''        '',
      (if truthy attachmentUrl then
          concat [''<p><strong>Attachment:</strong> '', ToString attachmentName, '' ('', ToString attachmentUrl, '')</p>'']
        else ''''),
      ''\<newline>'',
      ''        <p><strong>Post URL:</strong> '',
      ToString postUrl,
      ''</p>\<newline>'',
      ''        '',
      (if length failedEmails > 0 then
          concat [''<p><strong>Failed emails:</strong> '', join '', '' failedEmails, ''</p>'']
        else ''''),
      ''\<newline>'',
      ''      </div>\<newline>'',
      ''    </body>\<newline>'',
      ''    </html>\<newline>'',
      ''    '']\<close>

text \<open>The administrator's summary in \<^verbatim>\<open>index.js\<close>: no failure count and no failed list.\<close>

definition index_publishAdminHtml :: "env \<Rightarrow> jsval \<Rightarrow> nat \<Rightarrow> nat \<Rightarrow> jsval \<Rightarrow> jsval \<Rightarrow> jsval \<Rightarrow> string" where
  \<open>index_publishAdminHtml e title sentCount totalCount attachmentUrl attachmentName postUrl =
     concat
     [''\<newline>'',
      ''    <!DOCTYPE html>\<newline>'',
      ''    <html>\<newline>'',
      ''    <body style="font-family:Arial,sans-serif;background:#f4f6f8;padding:20px;">\<newline>'',
      ''      <div style="max-width:600px;background:#fff;padding:20px;border-radius:6px;">\<newline>'',
      ''        <h3>Post Published Successfully</h3>\<newline>'',
      ''        <p><strong>Title:</strong> '',
      ToString title,
      ''</p>\<newline>'',
      ''        <p><strong>Sent to:</strong> '',
      showNat sentCount,
      '' subscribers</p>\<newline>'',
      ''        <p><strong>Total subscribers:</strong> '',
      showNat totalCount,
      ''</p>\<newline>'',
      ''        <p><strong>Time:</strong> '',
      localeString e,
      ''</p>\<newline>'',
      ''        '',
      (if truthy attachmentUrl then
          concat [''<p><strong>Attachment:</strong> '', ToString attachmentName, '' ('', ToString attachmentUrl, '')</p>'']
        else ''''),
      ''\<newline>'',
      ''        <p><strong>Post URL:</strong> '',
      ToString postUrl,
      ''</p>\<newline>'',
      ''      </div>\<newline>'',
      ''    </body>\<newline>'',
      ''    </html>\<newline>'',
      ''    '']\<close>

section \<open>Route handlers\<close>

subsection \<open>Pieces shared by both files\<close>

text \<open>The sender shown to subscribers, the per-recipient unsubscribe link, and the public
  address and display name of an uploaded attachment (\<^verbatim>\<open>null\<close> without an upload).\<close>

definition fromHeader :: "config \<Rightarrow> string" where
  \<open>fromHeader cfg = concat [''"'', FROM_NAME cfg, ''" <'', FROM_EMAIL cfg, ''>'']\<close>

definition unsubscribeLink :: "request \<Rightarrow> subscriber \<Rightarrow> string" where
  "unsubscribeLink req subscriber =
     concat [req_protocol req, ''://'', req_host req, ''/unsubscribe?email='',
             encodeURIComponent (sub_email subscriber)]"

definition attachmentUrl_of :: "request \<Rightarrow> jsval" where
  "attachmentUrl_of req =
     (case req_file req of
        None \<Rightarrow> VNull
      | Some f \<Rightarrow> VStr (concat [req_protocol req, ''://'', req_host req, ''/uploads/'',
                               file_filename f]))"

definition attachmentName_of :: "request \<Rightarrow> jsval" where
  "attachmentName_of req =
     (case req_file req of None \<Rightarrow> VNull | Some f \<Rightarrow> VStr (file_originalname f))"

text \<open>A value as mongoose stores it in an optional string field, and as \<^verbatim>\<open>res.json\<close>
  writes it.\<close>

fun nullable :: "jsval \<Rightarrow> string option" where
  "nullable VUndefined = None"
| "nullable VNull = None"
| "nullable v = Some (ToString v)"

fun json_of :: "jsval \<Rightarrow> json" where
  "json_of (VStr s) = JStr s"
| "json_of (VBool b) = JBool b"
| "json_of v = JNull"

definition welcomeMail :: "config \<Rightarrow> string \<Rightarrow> string \<Rightarrow> mail" where
  "welcomeMail cfg email html =
     \<lparr>mail_from = fromHeader cfg, mail_to = email,
      mail_subject = ''Welcome to our updates'', mail_html = html,
      mail_attachments = None\<rparr>"

definition adminMail :: "config \<Rightarrow> string \<Rightarrow> string \<Rightarrow> mail" where
  "adminMail cfg subject html =
     \<lparr>mail_from = FROM_EMAIL cfg, mail_to = ADMIN_EMAIL cfg,
      mail_subject = subject, mail_html = html,
      mail_attachments = None\<rparr>"

subsection \<open>\<^verbatim>\<open>POST /subscribe\<close>\<close>

text \<open>\<^verbatim>\<open>part_000\<close>: format check, lookup, insert, then the two notifications (started, not
  awaited). Any throw inside the \<^verbatim>\<open>try\<close> lands in the handler's \<^verbatim>\<open>catch\<close>.\<close>

definition part000_subscribe_catch :: "dberr \<Rightarrow> reply" where
  "part000_subscribe_catch err =
     (if err_code err = Some 11000 \<or> str_includes (err_message err) ''duplicate'' then
        Reply 200 (JObj [(''success'', JBool False),
                         (''message'', JStr ''This email is already subscribed''),
                         (''alreadySubscribed'', JBool True)])
      else
        Reply 500 (JObj [(''success'', JBool False),
                         (''message'', JStr ''Server error. Please try again later.'')]))"

definition part000_subscribe :: "config \<Rightarrow> env \<Rightarrow> request \<Rightarrow> world \<Rightarrow> reply \<times> world" where
  "part000_subscribe cfg e req w =
     (let email = normEmail (js_or (body_field req ''email'') (VStr ''''));
          name = js_or (body_field req ''name'') (VStr '''')
      in
      if \<not> str_includes email ''@'' \<or> \<not> str_includes email ''.'' \<or> length email < 5 then
        (Reply 400 (JObj [(''success'', JBool False),
                          (''message'', JStr ''Invalid email format'')]), w)
      else
        case Subscriber_findOne e email w of
          Inl err \<Rightarrow> (part000_subscribe_catch err, w)
        | Inr (Some existingSubscriber) \<Rightarrow>
            (Reply 200 (JObj [(''success'', JBool False),
                              (''message'', JStr ''This email is already subscribed''),
                              (''alreadySubscribed'', JBool True)]), w)
        | Inr None \<Rightarrow>
            (case Subscriber_create e email (ToString name) w of
               Inl err \<Rightarrow> (part000_subscribe_catch err, w)
             | Inr w1 \<Rightarrow>
                 let w2 = snd (safeSend e (welcomeMail cfg email (part000_welcomeHtml cfg name)) w1)
                 in
                 (case Subscriber_countDocuments e w2 of
                    Inl err \<Rightarrow> (part000_subscribe_catch err, w2)
                  | Inr totalCount \<Rightarrow>
                      let w3 = snd (safeSend e
                                 (adminMail cfg ''New Subscriber Joined''
                                    (subscribeAdminHtml e email name totalCount)) w2)
                      in (Reply 200 (JObj [(''success'', JBool True),
                                           (''message'', JStr ''Subscribed successfully''),
                                           (''newSubscriber'', JBool True)]), w3))))"

text \<open>\<^verbatim>\<open>index.js\<close>: the format check asks for \<^verbatim>\<open>@\<close> only; there is no lookup, the
  insert itself reports a duplicate; the notifications are awaited, and the count of
  subscribers is read outside every \<^verbatim>\<open>try\<close>.\<close>

definition index_subscribe :: "config \<Rightarrow> env \<Rightarrow> request \<Rightarrow> world \<Rightarrow> reply \<times> world" where
  "index_subscribe cfg e req w =
     (let email = normEmail (js_or (body_field req ''email'') (VStr ''''));
          name = js_or (body_field req ''name'') (VStr '''')
      in
      if \<not> str_includes email ''@'' then
        (Reply 400 (JObj [(''success'', JBool False), (''message'', JStr ''Invalid email'')]), w)
      else
        case Subscriber_create e email (ToString name) w of
          Inl err \<Rightarrow>
            if err_code err = Some 11000 then
              (Reply 200 (JObj [(''success'', JBool True),
                                (''message'', JStr ''Already subscribed'')]), w)
            else
              (Reply 500 (JObj [(''success'', JBool False),
                                (''message'', JStr ''Server error'')]), w)
        | Inr w1 \<Rightarrow>
            let w2 = snd (safeSend e (welcomeMail cfg email (index_welcomeHtml cfg name)) w1)
            in
            (case Subscriber_countDocuments e w2 of
               Inl err \<Rightarrow> (NoReply, w2)
             | Inr totalCount \<Rightarrow>
                 let w3 = snd (safeSend e
                            (adminMail cfg ''New Subscriber Joined''
                               (subscribeAdminHtml e email name totalCount)) w2)
                 in (Reply 200 (JObj [(''success'', JBool True),
                                      (''message'', JStr ''Subscribed successfully'')]), w3)))"

subsection \<open>\<^verbatim>\<open>POST /unsubscribe\<close>\<close>

definition part000_unsubscribe :: "env \<Rightarrow> request \<Rightarrow> world \<Rightarrow> reply \<times> world" where
  "part000_unsubscribe e req w =
     (let email = normEmail (js_or (body_field req ''email'') (VStr ''''))
      in
      case Subscriber_deleteOne e email w of
        Inl err \<Rightarrow>
          (Reply 500 (JObj [(''success'', JBool False), (''message'', JStr ''Server error'')]), w)
      | Inr (deletedCount, w1) \<Rightarrow>
          if deletedCount = 0 then
            (Reply 200 (JObj [(''success'', JBool True),
                              (''message'', JStr ''Email was not subscribed''),
                              (''alreadyUnsubscribed'', JBool True)]), w1)
          else
            (Reply 200 (JObj [(''success'', JBool True),
                              (''message'', JStr ''Unsubscribed successfully''),
                              (''unsubscribed'', JBool True)]), w1))"

definition index_unsubscribe :: "env \<Rightarrow> request \<Rightarrow> world \<Rightarrow> reply \<times> world" where
  "index_unsubscribe e req w =
     (let email = normEmail (js_or (body_field req ''email'') (VStr ''''))
      in
      case Subscriber_deleteOne e email w of
        Inl err \<Rightarrow>
          (Reply 500 (JObj [(''success'', JBool False), (''message'', JStr ''Server error'')]), w)
      | Inr (deletedCount, w1) \<Rightarrow>
          (Reply 200 (JObj [(''success'', JBool True),
                            (''message'', JStr ''Unsubscribed successfully'')]), w1))"

subsection \<open>\<^verbatim>\<open>POST /publish\<close>\<close>

text \<open>The fan-out loop of \<^verbatim>\<open>part_000\<close>: one \<^verbatim>\<open>safeSend\<close> per subscriber, in the order of
  the snapshot; a success counts, a failure appends the address to \<^verbatim>\<open>failedEmails\<close>.
  (\<^verbatim>\<open>safeSend\<close> never throws, so the loop's own \<^verbatim>\<open>catch\<close> is never entered; the pause
  between two sends is not modelled.) \<open>mk\<close> builds \<^verbatim>\<open>mailOptions\<close> for a subscriber.\<close>

fun part000_sendAll ::
  "env \<Rightarrow> (subscriber \<Rightarrow> mail) \<Rightarrow> subscriber list \<Rightarrow> nat \<Rightarrow> string list \<Rightarrow> world
     \<Rightarrow> nat \<times> string list \<times> world" where
  "part000_sendAll e mk [] sentCount failedEmails w = (sentCount, failedEmails, w)"
| "part000_sendAll e mk (subscriber # rest) sentCount failedEmails w =
     (case safeSend e (mk subscriber) w of
        (ok, w') \<Rightarrow>
          if ok then part000_sendAll e mk rest (sentCount + 1) failedEmails w'
          else part000_sendAll e mk rest sentCount (failedEmails @ [sub_email subscriber]) w')"

text \<open>The loop of \<^verbatim>\<open>index.js\<close> keeps the count only.\<close>

fun index_sendAll ::
  "env \<Rightarrow> (subscriber \<Rightarrow> mail) \<Rightarrow> subscriber list \<Rightarrow> nat \<Rightarrow> world \<Rightarrow> nat \<times> world" where
  "index_sendAll e mk [] sentCount w = (sentCount, w)"
| "index_sendAll e mk (subscriber # rest) sentCount w =
     (case safeSend e (mk subscriber) w of
        (ok, w') \<Rightarrow>
          if ok then index_sendAll e mk rest (sentCount + 1) w'
          else index_sendAll e mk rest sentCount w')"

definition part000_mailOptions ::
  "config \<Rightarrow> env \<Rightarrow> request \<Rightarrow> jsval \<Rightarrow> jsval \<Rightarrow> bool \<Rightarrow> jsval \<Rightarrow> subscriber \<Rightarrow> mail" where
  "part000_mailOptions cfg e req title emailBody hint postUrl subscriber =
     \<lparr>mail_from = fromHeader cfg,
      mail_to = sub_email subscriber,
      mail_subject = ToString title,
      mail_html = publishHtml cfg e title emailBody hint postUrl
                    (attachmentUrl_of req) (attachmentName_of req)
                    (unsubscribeLink req subscriber),
      mail_attachments =
        Some (case req_file req of
                Some f \<Rightarrow> [\<lparr>att_filename = file_originalname f, att_path = file_path f\<rparr>]
              | None \<Rightarrow> [])\<rparr>"

definition index_mailOptions ::
  "config \<Rightarrow> env \<Rightarrow> request \<Rightarrow> jsval \<Rightarrow> jsval \<Rightarrow> bool \<Rightarrow> jsval \<Rightarrow> subscriber \<Rightarrow> mail" where
  "index_mailOptions cfg e req title emailBody hint postUrl subscriber =
     \<lparr>mail_from = fromHeader cfg,
      mail_to = sub_email subscriber,
      mail_subject = ToString title,
      mail_html = publishHtml cfg e title emailBody hint postUrl
                    (attachmentUrl_of req) (attachmentName_of req)
                    (unsubscribeLink req subscriber),
      mail_attachments =
        (case req_file req of
           Some f \<Rightarrow> Some [\<lparr>att_filename = file_originalname f, att_path = file_path f\<rparr>]
         | None \<Rightarrow> None)\<rparr>"

text \<open>The coercion of \<^verbatim>\<open>sendFull\<close>, the body chosen for the notification, and the
  condition of the hint, per file.\<close>

definition part000_isFull :: "jsval \<Rightarrow> bool" where
  "part000_isFull sendFull = (sendFull = VStr ''1'' \<or> sendFull = VStr ''true'')"

definition index_isFull :: "jsval \<Rightarrow> bool" where
  "index_isFull sendFull = (sendFull = VStr ''1'')"

definition emailBody_of :: "bool \<Rightarrow> jsval \<Rightarrow> jsval \<Rightarrow> jsval" where
  "emailBody_of full content excerpt =
     (if full then js_or (js_or content excerpt) (VStr '''') else js_or excerpt (VStr ''''))"

definition hint_of :: "bool \<Rightarrow> jsval \<Rightarrow> jsval \<Rightarrow> bool" where
  "hint_of full excerpt content = truthy (js_and (js_and (VBool (\<not> full)) excerpt) content)"

definition new_post :: "env \<Rightarrow> request \<Rightarrow> bool \<Rightarrow> post" where
  "new_post e req full =
     \<lparr>post_id = new_id e,
      post_title = ToString (body_field req ''title''),
      post_excerpt = ToString (js_or (body_field req ''excerpt'') (VStr '''')),
      post_content = ToString (js_or (body_field req ''content'') (VStr '''')),
      post_postUrl = ToString (body_field req ''postUrl''),
      post_attachmentUrl = nullable (attachmentUrl_of req),
      post_attachmentName = nullable (attachmentName_of req),
      post_sendFull = full,
      post_publishedAt = now e\<rparr>"

definition part000_publish_catch :: "dberr \<Rightarrow> reply" where
  "part000_publish_catch err =
     Reply 500 (JObj [(''success'', JBool False),
                      (''message'', JStr ''Internal server error''),
                      (''error'', JStr (err_message err))])"

definition part000_response :: "env \<Rightarrow> request \<Rightarrow> nat \<Rightarrow> nat \<Rightarrow> string list \<Rightarrow> json" where
  "part000_response e req sentCount totalCount failedEmails =
     JObj ([(''success'', JBool True),
            (''sent'', JObj [(''subscribers'', JNum sentCount),
                             (''total'', JNum totalCount),
                             (''failed'', JNum (length failedEmails))]),
            (''postId'', JStr (new_id e)),
            (''attachmentUrl'', json_of (attachmentUrl_of req)),
            (''message'', JStr (concat [''Published successfully to '', showNat sentCount,
                                        '' out of '', showNat totalCount, '' subscribers'']))]
           @ (if length failedEmails > 0 then [(''failedEmails'', JArr (map JStr failedEmails))]
              else []))"

definition part000_publish :: "config \<Rightarrow> env \<Rightarrow> request \<Rightarrow> world \<Rightarrow> reply \<times> world" where
  "part000_publish cfg e req w =
     (let secret = js_or (header (x_publish_secret req)) (body_field req ''secret'') in
      if secret \<noteq> VStr (PUBLISH_SECRET cfg) then
        (Reply 401 (JObj [(''success'', JBool False), (''message'', JStr ''Invalid secret'')]), w)
      else
        let title = body_field req ''title'';
            excerpt = body_field req ''excerpt'';
            postUrl = body_field req ''postUrl'';
            content = body_field req ''content'';
            sendFull = body_field req ''sendFull''
        in
        if \<not> truthy title \<or> \<not> truthy postUrl then
          (Reply 400 (JObj [(''success'', JBool False),
                            (''message'', JStr ''Title and post URL are required'')]), w)
        else
          case Subscriber_find e w of
            Inl err \<Rightarrow> (part000_publish_catch err, w)
          | Inr subs \<Rightarrow>
              (case Post_create e (new_post e req (part000_isFull sendFull)) w of
                 Inl err \<Rightarrow> (part000_publish_catch err, w)
               | Inr w1 \<Rightarrow>
                   let emailBody = emailBody_of (part000_isFull sendFull) content excerpt;
                       hint = hint_of (part000_isFull sendFull) excerpt content
                   in
                   (case part000_sendAll e
                           (part000_mailOptions cfg e req title emailBody hint postUrl)
                           subs 0 [] w1 of
                      (sentCount, failedEmails, w2) \<Rightarrow>
                        let w3 = snd (safeSend e
                                   (adminMail cfg (''Post Published: '' @ ToString title)
                                      (part000_publishAdminHtml e title sentCount failedEmails
                                         (length subs) (attachmentUrl_of req)
                                         (attachmentName_of req) postUrl)) w2)
                        in (Reply 200
                              (part000_response e req sentCount (length subs) failedEmails),
                            w3))))"

definition index_response :: "request \<Rightarrow> nat \<Rightarrow> json" where
  "index_response req sentCount =
     JObj [(''success'', JBool True),
           (''sent'', JObj [(''subscribers'', JNum sentCount)]),
           (''attachmentUrl'', json_of (attachmentUrl_of req)),
           (''message'', JStr (concat [''Published successfully to '', showNat sentCount,
                                       '' subscribers'']))]"

definition index_publish :: "config \<Rightarrow> env \<Rightarrow> request \<Rightarrow> world \<Rightarrow> reply \<times> world" where
  "index_publish cfg e req w =
     (if header (x_publish_secret req) \<noteq> VStr (PUBLISH_SECRET cfg) then
        (Reply 401 (JObj [(''success'', JBool False), (''message'', JStr ''Invalid secret'')]), w)
      else
        let title = body_field req ''title'';
            excerpt = body_field req ''excerpt'';
            postUrl = body_field req ''postUrl'';
            content = body_field req ''content'';
            sendFull = body_field req ''sendFull''
        in
        if \<not> truthy title \<or> \<not> truthy postUrl then
          (Reply 400 (JObj [(''success'', JBool False),
                            (''message'', JStr ''Title and post URL are required'')]), w)
        else
          case Subscriber_find e w of
            Inl err \<Rightarrow>
              (Reply 500 (JObj [(''success'', JBool False),
                                (''message'', JStr ''Internal server error'')]), w)
          | Inr subs \<Rightarrow>
              (case Post_create e (new_post e req (index_isFull sendFull)) w of
                 Inl err \<Rightarrow>
                   (Reply 500 (JObj [(''success'', JBool False),
                                     (''message'', JStr ''Internal server error'')]), w)
               | Inr w1 \<Rightarrow>
                   let emailBody = emailBody_of (index_isFull sendFull) content excerpt;
                       hint = hint_of (index_isFull sendFull) excerpt content
                   in
                   (case index_sendAll e
                           (index_mailOptions cfg e req title emailBody hint postUrl)
                           subs 0 w1 of
                      (sentCount, w2) \<Rightarrow>
                        let w3 = snd (safeSend e
                                   (adminMail cfg (''Post Published: '' @ ToString title)
                                      (index_publishAdminHtml e title sentCount (length subs)
                                         (attachmentUrl_of req) (attachmentName_of req) postUrl))
                                   w2)
                        in (Reply 200 (index_response req sentCount), w3))))"

section \<open>Notions used to state the properties\<close>

text \<open>The answers of the mail transport to a run of sends that starts as attempt number
  \<open>n\<close>: one answer per subscriber, in the order of the sends.\<close>

fun outcomes :: "env \<Rightarrow> (subscriber \<Rightarrow> mail) \<Rightarrow> nat \<Rightarrow> subscriber list \<Rightarrow> bool list" where
  "outcomes e mk n [] = []"
| "outcomes e mk n (s # ss) = sendMail_ok e n (mk s) # outcomes e mk (Suc n) ss"

text \<open>The message the publish handler builds for one subscriber, as a function of the
  request: \<^verbatim>\<open>mailOptions\<close> with \<^verbatim>\<open>emailBody\<close> and the hint condition computed as the
  handler does before its loop.\<close>

definition part000_notification :: "config \<Rightarrow> env \<Rightarrow> request \<Rightarrow> subscriber \<Rightarrow> mail" where
  "part000_notification cfg e req =
     part000_mailOptions cfg e req (body_field req ''title'')
       (emailBody_of (part000_isFull (body_field req ''sendFull''))
          (body_field req ''content'') (body_field req ''excerpt''))
       (hint_of (part000_isFull (body_field req ''sendFull''))
          (body_field req ''excerpt'') (body_field req ''content''))
       (body_field req ''postUrl'')"

definition index_notification :: "config \<Rightarrow> env \<Rightarrow> request \<Rightarrow> subscriber \<Rightarrow> mail" where
  "index_notification cfg e req =
     index_mailOptions cfg e req (body_field req ''title'')
       (emailBody_of (index_isFull (body_field req ''sendFull''))
          (body_field req ''content'') (body_field req ''excerpt''))
       (hint_of (index_isFull (body_field req ''sendFull''))
          (body_field req ''excerpt'') (body_field req ''content''))
       (body_field req ''postUrl'')"

text \<open>The number of sends the transport accepts in a fan-out over the subscribers of
  \<open>w\<close>, and the addresses of the subscribers whose send it refuses, in order.\<close>

definition sent_count :: "env \<Rightarrow> (subscriber \<Rightarrow> mail) \<Rightarrow> world \<Rightarrow> nat" where
  "sent_count e mk w =
     length (filter id (outcomes e mk (length (attempts (history w))) (subscribers w)))"

definition failed_list :: "env \<Rightarrow> (subscriber \<Rightarrow> mail) \<Rightarrow> world \<Rightarrow> string list" where
  "failed_list e mk w =
     map (sub_email \<circ> fst)
       (filter (\<lambda>p. \<not> snd p)
          (zip (subscribers w) (outcomes e mk (length (attempts (history w))) (subscribers w))))"

text \<open>The administrator's summary a publish call sends after the loop.\<close>

definition part000_summary :: "config \<Rightarrow> env \<Rightarrow> request \<Rightarrow> world \<Rightarrow> mail" where
  "part000_summary cfg e req w =
     adminMail cfg (''Post Published: '' @ ToString (body_field req ''title''))
       (part000_publishAdminHtml e (body_field req ''title'')
          (sent_count e (part000_notification cfg e req) w)
          (failed_list e (part000_notification cfg e req) w)
          (length (subscribers w)) (attachmentUrl_of req) (attachmentName_of req)
          (body_field req ''postUrl''))"

definition index_summary :: "config \<Rightarrow> env \<Rightarrow> request \<Rightarrow> world \<Rightarrow> mail" where
  "index_summary cfg e req w =
     adminMail cfg (''Post Published: '' @ ToString (body_field req ''title''))
       (index_publishAdminHtml e (body_field req ''title'')
          (sent_count e (index_notification cfg e req) w)
          (length (subscribers w)) (attachmentUrl_of req) (attachmentName_of req)
          (body_field req ''postUrl''))"


text \<open>The messages handed to the transport between the states \<open>w\<close> and \<open>w'\<close>.\<close>

definition sent_by :: "world \<Rightarrow> world \<Rightarrow> mail list" where
  "sent_by w w' = attempts (drop (length (history w)) (history w'))"

text \<open>Invariants of the subscriber collection. The unique index keeps the addresses
  distinct; every address stored by \<^verbatim>\<open>/subscribe\<close> has passed the format check of the
  file that stored it.\<close>

definition unique_emails :: "world \<Rightarrow> bool" where
  "unique_emails w = distinct (map sub_email (subscribers w))"

definition part000_format_ok :: "world \<Rightarrow> bool" where
  "part000_format_ok w =
     (\<forall>s \<in> set (subscribers w).
        str_includes (sub_email s) ''@'' \<and> str_includes (sub_email s) ''.''
        \<and> 5 \<le> length (sub_email s))"

definition index_format_ok :: "world \<Rightarrow> bool" where
  "index_format_ok w = (\<forall>s \<in> set (subscribers w). str_includes (sub_email s) ''@'')"

text \<open>The address a subscribe or unsubscribe request is about, as the handlers compute it.\<close>

definition email_of :: "request \<Rightarrow> string" where
  "email_of req = normEmail (js_or (body_field req ''email'') (VStr ''''))"

text \<open>The record a successful subscribe request stores.\<close>

definition new_subscriber :: "env \<Rightarrow> request \<Rightarrow> subscriber" where
  "new_subscriber e req =
     \<lparr>sub_email = email_of req,
      sub_name = ToString (js_or (body_field req ''name'') (VStr '''')),
      sub_createdAt = now e\<rparr>"

subsection \<open>Concrete inputs\<close>

text \<open>A configuration, an environment without store failures whose transport answers as
  \<open>ok\<close> says, an empty state, a state with three subscribers, and the publish request of
  the specification's example (\<^verbatim>\<open>title="Hello"\<close>, \<^verbatim>\<open>postUrl="https://x/1"\<close>).\<close>

definition cfg0 :: config where
  "cfg0 = \<lparr>FROM_EMAIL = ''news@example.com'', FROM_NAME = ''News'',
           EMAIL_USER = ''mailer@example.com'', ADMIN_EMAIL = ''admin@example.com'',
           PUBLISH_SECRET = ''s3cret''\<rparr>"

definition env0 :: "(nat \<Rightarrow> mail \<Rightarrow> bool) \<Rightarrow> env" where
  "env0 ok = \<lparr>now = 1762099200, localeString = ''11/2/2026, 4:00:00 PM'', fullYear = 2026,
              sendMail_ok = ok, new_id = ''post-1'',
              find_error = None, findOne_error = None, create_error = None,
              countDocuments_error = None, deleteOne_error = None, Post_create_error = None\<rparr>"

definition w_empty :: world where
  "w_empty = \<lparr>subscribers = [], posts = [], history = []\<rparr>"

definition subscriber_of :: "string \<Rightarrow> subscriber" where
  "subscriber_of em = \<lparr>sub_email = em, sub_name = '''', sub_createdAt = 0\<rparr>"

definition w_three :: world where
  "w_three = \<lparr>subscribers = map subscriber_of [''a@x.com'', ''b@x.com'', ''c@x.com''],
              posts = [], history = []\<rparr>"

definition request0 :: "string option \<Rightarrow> (string \<times> jsval) list \<Rightarrow> request" where
  "request0 h b = \<lparr>x_publish_secret = h, req_body = b, req_file = None,
                   req_protocol = ''https'', req_host = ''news.example.com''\<rparr>"

definition hello :: "(string \<times> jsval) list" where
  "hello = [(''title'', VStr ''Hello''), (''postUrl'', VStr ''https://x/1'')]"

text \<open>A transport that refuses exactly the messages addressed to \<open>em\<close>.\<close>

definition fails_for :: "string \<Rightarrow> nat \<Rightarrow> mail \<Rightarrow> bool" where
  "fails_for em n m = (mail_to m \<noteq> em)"

text \<open>A publish request with a title, content \<^verbatim>\<open>"FULL"\<close>, excerpt \<^verbatim>\<open>"EXC"\<close> and a
  given \<^verbatim>\<open>sendFull\<close> field.\<close>

definition article :: "string \<Rightarrow> string \<Rightarrow> (string \<times> jsval) list" where
  "article t sf =
     [(''title'', VStr t), (''postUrl'', VStr ''https://x/1''),
      (''content'', VStr ''FULL''), (''excerpt'', VStr ''EXC''), (''sendFull'', VStr sf)]"

text \<open>A subscribe or unsubscribe request for an address.\<close>

definition email_request :: "string \<Rightarrow> request" where
  "email_request em = request0 None [(''email'', VStr em)]"

section \<open>The fan-out loop and the publish handler\<close>

lemma attempts_append: "attempts (xs @ ys) = attempts xs @ attempts ys"
  by (induction xs rule: attempts.induct) simp_all

lemma attempts_map_MailAttempt: "attempts (map (MailAttempt \<circ> f) ss) = map f ss"
  by (induction ss) simp_all

lemma length_outcomes: "length (outcomes e mk n ss) = length ss"
  by (induction ss arbitrary: n) simp_all

lemma safeSend_eq:
  "safeSend e m w = (sendMail_ok e (length (attempts (history w))) m, w\<lparr>history := history w @ [MailAttempt m]\<rparr>)"
  by (simp add: safeSend_def)

text \<open>The loop in closed form: the count, the failed list and the messages sent.\<close>

lemma part000_sendAll_spec:
  "part000_sendAll e mk ss c f w =
     (c + length (filter id (outcomes e mk (length (attempts (history w))) ss)),
      f @ map (sub_email \<circ> fst) (filter (\<lambda>p. \<not> snd p) (zip ss (outcomes e mk (length (attempts (history w))) ss))),
      w\<lparr>history := history w @ map (MailAttempt \<circ> mk) ss\<rparr>)"
proof (induction ss arbitrary: c f w)
  case Nil
  show ?case by simp
next
  case (Cons s ss)
  show ?case
    by (simp add: safeSend_eq Cons.IH attempts_append)
qed

lemma index_sendAll_spec:
  "index_sendAll e mk ss c w =
     (c + length (filter id (outcomes e mk (length (attempts (history w))) ss)),
      w\<lparr>history := history w @ map (MailAttempt \<circ> mk) ss\<rparr>)"
proof (induction ss arbitrary: c w)
  case Nil
  show ?case by simp
next
  case (Cons s ss)
  show ?case
    by (simp add: safeSend_eq Cons.IH attempts_append)
qed

lemma count_split:
  "length (filter id bs) + length (filter (\<lambda>p. \<not> snd p) (zip ss bs)) = length ss" if "length bs = length ss"
  using that by (induction ss bs rule: list_induct2') simp_all

lemma sent_plus_failed:
  "sent_count e mk w + length (failed_list e mk w) = length (subscribers w)"
  by (simp add: sent_count_def failed_list_def count_split length_outcomes)

text \<open>What an accepted publish call does, in one equation.\<close>

lemma part000_publish_accepted:
  assumes "js_or (header (x_publish_secret req)) (body_field req ''secret'') = VStr (PUBLISH_SECRET cfg)"
    and "truthy (body_field req ''title'')" and "truthy (body_field req ''postUrl'')"
    and "find_error e = None" and "Post_create_error e = None"
  shows "part000_publish cfg e req w =
     (Reply 200 (part000_response e req (sent_count e (part000_notification cfg e req) w)
                   (length (subscribers w)) (failed_list e (part000_notification cfg e req) w)),
      w\<lparr>posts := posts w @ [new_post e req (part000_isFull (body_field req ''sendFull''))],
        history := history w
          @ PostCreated (new_post e req (part000_isFull (body_field req ''sendFull'')))
          # map (MailAttempt \<circ> part000_notification cfg e req) (subscribers w)
          @ [MailAttempt (part000_summary cfg e req w)]\<rparr>)"
  using assms
  by (simp add: part000_publish_def Let_def Subscriber_find_def Post_create_def
       part000_sendAll_spec safeSend_eq sent_count_def failed_list_def part000_summary_def
       part000_notification_def attempts_append)

lemma index_publish_accepted:
  assumes "header (x_publish_secret req) = VStr (PUBLISH_SECRET cfg)"
    and "truthy (body_field req ''title'')" and "truthy (body_field req ''postUrl'')"
    and "find_error e = None" and "Post_create_error e = None"
  shows "index_publish cfg e req w =
     (Reply 200 (index_response req (sent_count e (index_notification cfg e req) w)),
      w\<lparr>posts := posts w @ [new_post e req (index_isFull (body_field req ''sendFull''))],
        history := history w
          @ PostCreated (new_post e req (index_isFull (body_field req ''sendFull'')))
          # map (MailAttempt \<circ> index_notification cfg e req) (subscribers w)
          @ [MailAttempt (index_summary cfg e req w)]\<rparr>)"
  using assms
  by (simp add: index_publish_def Let_def Subscriber_find_def Post_create_def
       index_sendAll_spec safeSend_eq sent_count_def index_summary_def
       index_notification_def attempts_append)

text \<open>Every other publish call leaves the state as it was.\<close>

lemma part000_publish_refused:
  assumes "js_or (header (x_publish_secret req)) (body_field req ''secret'') \<noteq> VStr (PUBLISH_SECRET cfg)
     \<or> \<not> truthy (body_field req ''title'') \<or> \<not> truthy (body_field req ''postUrl'')
     \<or> find_error e \<noteq> None \<or> Post_create_error e \<noteq> None"
  shows "snd (part000_publish cfg e req w) = w"
    and "reply_status (fst (part000_publish cfg e req w)) =
      Some (if js_or (header (x_publish_secret req)) (body_field req ''secret'') \<noteq> VStr (PUBLISH_SECRET cfg) then 401
       else if \<not> truthy (body_field req ''title'') \<or> \<not> truthy (body_field req ''postUrl'') then 400 else 500)"
  using assms
  by (auto simp add: part000_publish_def Let_def Subscriber_find_def Post_create_def part000_publish_catch_def
        split: option.splits)

lemma index_publish_refused:
  assumes "header (x_publish_secret req) \<noteq> VStr (PUBLISH_SECRET cfg)
     \<or> \<not> truthy (body_field req ''title'') \<or> \<not> truthy (body_field req ''postUrl'')
     \<or> find_error e \<noteq> None \<or> Post_create_error e \<noteq> None"
  shows "snd (index_publish cfg e req w) = w"
    and "reply_status (fst (index_publish cfg e req w)) =
      Some (if header (x_publish_secret req) \<noteq> VStr (PUBLISH_SECRET cfg) then 401
       else if \<not> truthy (body_field req ''title'') \<or> \<not> truthy (body_field req ''postUrl'') then 400 else 500)"
  using assms
  by (auto simp add: index_publish_def Let_def Subscriber_find_def Post_create_def
        split: option.splits)

text \<open>The status of the answer, by the checks in their order.\<close>

lemma part000_publish_status:
  "reply_status (fst (part000_publish cfg e req w)) =
     Some (if js_or (header (x_publish_secret req)) (body_field req ''secret'')
                \<noteq> VStr (PUBLISH_SECRET cfg) then 401
           else if \<not> truthy (body_field req ''title'') \<or> \<not> truthy (body_field req ''postUrl'')
             then 400
           else if find_error e \<noteq> None \<or> Post_create_error e \<noteq> None then 500
           else 200)"
proof (cases "js_or (header (x_publish_secret req)) (body_field req ''secret'') = VStr (PUBLISH_SECRET cfg)
        \<and> truthy (body_field req ''title'') \<and> truthy (body_field req ''postUrl'')
        \<and> find_error e = None \<and> Post_create_error e = None")
  case True
  then show ?thesis by (simp add: part000_publish_accepted)
next
  case False
  have "reply_status (fst (part000_publish cfg e req w)) =
      Some (if js_or (header (x_publish_secret req)) (body_field req ''secret'') \<noteq> VStr (PUBLISH_SECRET cfg) then 401
       else if \<not> truthy (body_field req ''title'') \<or> \<not> truthy (body_field req ''postUrl'') then 400 else 500)"
    using False by (intro part000_publish_refused(2)) (simp only: de_Morgan_conj)
  with False show ?thesis by auto
qed

lemma index_publish_status:
  "reply_status (fst (index_publish cfg e req w)) =
     Some (if header (x_publish_secret req) \<noteq> VStr (PUBLISH_SECRET cfg) then 401
           else if \<not> truthy (body_field req ''title'') \<or> \<not> truthy (body_field req ''postUrl'')
             then 400
           else if find_error e \<noteq> None \<or> Post_create_error e \<noteq> None then 500
           else 200)"
proof (cases "header (x_publish_secret req) = VStr (PUBLISH_SECRET cfg)
        \<and> truthy (body_field req ''title'') \<and> truthy (body_field req ''postUrl'')
        \<and> find_error e = None \<and> Post_create_error e = None")
  case True
  then show ?thesis by (simp add: index_publish_accepted)
next
  case False
  have "reply_status (fst (index_publish cfg e req w)) =
      Some (if header (x_publish_secret req) \<noteq> VStr (PUBLISH_SECRET cfg) then 401
       else if \<not> truthy (body_field req ''title'') \<or> \<not> truthy (body_field req ''postUrl'') then 400 else 500)"
    using False by (intro index_publish_refused(2)) (simp only: de_Morgan_conj)
  with False show ?thesis by auto
qed

lemma sent_by_self: "sent_by w w = []"
  by (simp add: sent_by_def)


lemma part000_notification_to:
  "map mail_to (map (part000_notification cfg e req) ss) = map sub_email ss"
  by (simp add: part000_notification_def part000_mailOptions_def)

lemma index_notification_to:
  "map mail_to (map (index_notification cfg e req) ss) = map sub_email ss"
  by (simp add: index_notification_def index_mailOptions_def)

lemma sent_by_append: "sent_by w (w\<lparr>posts := ps, history := history w @ evs\<rparr>) = attempts evs"
  by (simp add: sent_by_def)

subsection \<open>Facts about the concrete inputs\<close>

lemma fixtures_ok:
  "truthy (body_field (request0 h hello) ''title'')"
  "truthy (body_field (request0 h hello) ''postUrl'')"
  "find_error (env0 ok) = None"
  "Post_create_error (env0 ok) = None"
  by (simp_all add: request0_def hello_def body_field_def env0_def)

lemma fixture_secret:
  "js_or (header (x_publish_secret (request0 (Some ''s3cret'') b)))
     (body_field (request0 (Some ''s3cret'') b) ''secret'') = VStr (PUBLISH_SECRET cfg0)"
  "header (x_publish_secret (request0 (Some ''s3cret'') b)) = VStr (PUBLISH_SECRET cfg0)"
  by (simp_all add: request0_def header_def js_or_def cfg0_def)

lemma w_three_len: "length (subscribers w_three) = 3"
  by (simp add: w_three_def)

lemma showNat_small: "showNat 0 = ''0''" "showNat 1 = ''1''" "showNat 2 = ''2''" "showNat 3 = ''3''"
  by (simp_all add: showNat.simps digit_def)

lemma sent3:
  "sent_count (env0 (fails_for ''b@x.com''))
     (part000_notification cfg0 (env0 (fails_for ''b@x.com'')) (request0 (Some ''s3cret'') hello))
     w_three = 2"
  by (simp add: sent_count_def w_three_def env0_def fails_for_def part000_notification_def
        part000_mailOptions_def subscriber_of_def)

lemma failed3:
  "failed_list (env0 (fails_for ''b@x.com''))
     (part000_notification cfg0 (env0 (fails_for ''b@x.com'')) (request0 (Some ''s3cret'') hello))
     w_three = [''b@x.com'']"
  by (simp add: failed_list_def w_three_def env0_def fails_for_def part000_notification_def
        part000_mailOptions_def subscriber_of_def)

lemma index_sent3:
  "sent_count (env0 (fails_for ''b@x.com''))
     (index_notification cfg0 (env0 (fails_for ''b@x.com'')) (request0 (Some ''s3cret'') hello))
     w_three = 2"
  by (simp add: sent_count_def w_three_def env0_def fails_for_def index_notification_def
        index_mailOptions_def subscriber_of_def)

section \<open>Occurrence of a piece in a rendered message\<close>

lemma startsWith_iff: "startsWith s sub \<longleftrightarrow> (\<exists>q. s = sub @ q)"
  by (induction s sub rule: startsWith.induct) auto

lemma str_includes_iff: "str_includes s sub \<longleftrightarrow> (\<exists>p q. s = p @ sub @ q)"
proof (induction s)
  case Nil
  show ?case by simp
next
  case (Cons x xs)
  show ?case
  proof
    assume "str_includes (x # xs) sub"
    then consider "startsWith (x # xs) sub" | "str_includes xs sub" by auto
    then show "\<exists>p q. x # xs = p @ sub @ q"
    proof cases
      case 1
      then obtain q where "x # xs = sub @ q" by (auto simp add: startsWith_iff)
      then have "x # xs = [] @ sub @ q" by simp
      then show ?thesis by blast
    next
      case 2
      then obtain p q where "xs = p @ sub @ q" using Cons.IH by blast
      then have "x # xs = (x # p) @ sub @ q" by simp
      then show ?thesis by blast
    qed
  next
    assume "\<exists>p q. x # xs = p @ sub @ q"
    then obtain p q where pq: "x # xs = p @ sub @ q" by blast
    show "str_includes (x # xs) sub"
    proof (cases p)
      case Nil
      with pq have "startsWith (x # xs) sub" by (auto simp add: startsWith_iff)
      then show ?thesis by simp
    next
      case (Cons y p')
      with pq have "xs = p' @ sub @ q" by simp
      then have "str_includes xs sub" using Cons.IH by blast
      then show ?thesis by simp
    qed
  qed
qed

lemma str_includes_concat: "x \<in> set parts \<Longrightarrow> str_includes (concat parts) x"
proof -
  assume "x \<in> set parts"
  then obtain a b where "parts = a @ x # b" by (auto dest: split_list)
  then have "concat parts = concat a @ x @ concat b" by simp
  then show ?thesis unfolding str_includes_iff by blast
qed

lemma str_includes_set: "str_includes s sub \<Longrightarrow> set sub \<subseteq> set s"
  by (auto simp add: str_includes_iff)

text \<open>The template shows the body it is given and the title.\<close>

lemma publishHtml_includes_body:
  "str_includes (publishHtml cfg e title emailBody hint postUrl attachmentUrl attachmentName link)
     (ToString emailBody)"
  unfolding publishHtml_def by (rule str_includes_concat) simp

lemma publishHtml_includes_title:
  "str_includes (publishHtml cfg e title emailBody hint postUrl attachmentUrl attachmentName link)
     (ToString title)"
  unfolding publishHtml_def by (rule str_includes_concat) simp

lemma body_field_override:
  "body_field (req\<lparr>req_body := (k, v) # req_body req\<rparr>) k' =
     (if k' = k then v else body_field req k')"
  by (simp add: body_field_def)

section \<open>The subscriber collection\<close>

lemma find_email_None:
  "(find (\<lambda>s. sub_email s = em) ss = None) = (em \<notin> set (map sub_email ss))"
  by (auto simp add: find_None_iff)

lemma find_email_Some:
  "find (\<lambda>s. sub_email s = em) ss = Some s \<Longrightarrow> s \<in> set ss \<and> sub_email s = em"
  by (auto simp add: find_Some_iff)

lemma removed_email_gone:
  assumes "distinct (map sub_email ss)" and "find (\<lambda>s. sub_email s = em) ss = Some s"
  shows "em \<notin> set (map sub_email (remove1 s ss))"
proof
  assume "em \<in> set (map sub_email (remove1 s ss))"
  then obtain x where x: "x \<in> set (remove1 s ss)" "sub_email x = em" by auto
  from assms(1) have d: "distinct ss" and inj: "inj_on sub_email (set ss)"
    by (simp_all add: distinct_map)
  have s: "s \<in> set ss" "sub_email s = em"
    using find_email_Some [OF assms(2)] by simp_all
  from x(1) d have xs: "x \<in> set ss" and ne: "x \<noteq> s" by simp_all
  have "x = s"
    by (rule inj_onD [OF inj]) (simp_all add: x s xs)
  with ne show False by simp
qed

lemma remove1_keeps_distinct_emails:
  "distinct (map sub_email ss) \<Longrightarrow> distinct (map sub_email (remove1 s ss))"
proof -
  assume a: "distinct (map sub_email ss)"
  then have d: "distinct ss" and inj: "inj_on sub_email (set ss)" by (simp_all add: distinct_map)
  have sub: "set (remove1 s ss) \<subseteq> set ss" by (rule set_remove1_subset)
  have "inj_on sub_email (set (remove1 s ss))"
    by (rule inj_on_subset [OF inj sub])
  with d show ?thesis
    by (simp add: distinct_map)
qed

lemma safeSend_snd:
  "snd (safeSend e m w) = w\<lparr>history := history w @ [MailAttempt m]\<rparr>"
  by (simp add: safeSend_def)

text \<open>The subscribe handlers in closed form, case by case in the order of the code.\<close>

lemma part000_subscribe_closed:
  "part000_subscribe cfg e req w =
    (if \<not> str_includes (email_of req) ''@'' \<or> \<not> str_includes (email_of req) ''.''
        \<or> length (email_of req) < 5 then
       (Reply 400 (JObj [(''success'', JBool False),
                         (''message'', JStr ''Invalid email format'')]), w)
     else case findOne_error e of
       Some err \<Rightarrow> (part000_subscribe_catch err, w)
     | None \<Rightarrow>
       if email_of req \<in> set (map sub_email (subscribers w)) then
         (Reply 200 (JObj [(''success'', JBool False),
                           (''message'', JStr ''This email is already subscribed''),
                           (''alreadySubscribed'', JBool True)]), w)
       else case create_error e of
         Some err \<Rightarrow> (part000_subscribe_catch err, w)
       | None \<Rightarrow>
         (case countDocuments_error e of
            Some err \<Rightarrow>
              (part000_subscribe_catch err,
               w\<lparr>subscribers := subscribers w @ [new_subscriber e req],
                 history := history w @
                   [SubscriberCreated (new_subscriber e req),
                    MailAttempt (welcomeMail cfg (email_of req)
                      (part000_welcomeHtml cfg (js_or (body_field req ''name'') (VStr ''''))))]\<rparr>)
          | None \<Rightarrow>
              (Reply 200 (JObj [(''success'', JBool True),
                                (''message'', JStr ''Subscribed successfully''),
                                (''newSubscriber'', JBool True)]),
               w\<lparr>subscribers := subscribers w @ [new_subscriber e req],
                 history := history w @
                   [SubscriberCreated (new_subscriber e req),
                    MailAttempt (welcomeMail cfg (email_of req)
                      (part000_welcomeHtml cfg (js_or (body_field req ''name'') (VStr '''')))),
                    MailAttempt (adminMail cfg ''New Subscriber Joined''
                      (subscribeAdminHtml e (email_of req)
                         (js_or (body_field req ''name'') (VStr ''''))
                         (Suc (length (subscribers w)))))]\<rparr>)))"
proof (cases "\<not> str_includes (email_of req) ''@'' \<or> \<not> str_includes (email_of req) ''.''
        \<or> length (email_of req) < 5")
  case True
  then show ?thesis
    unfolding email_of_def by (simp add: part000_subscribe_def Let_def)
next
  case valid: False
  show ?thesis
  proof (cases "findOne_error e")
    case (Some err)
    with valid show ?thesis
      unfolding email_of_def by (simp add: part000_subscribe_def Let_def Subscriber_findOne_def)
  next
    case f: None
    show ?thesis
    proof (cases "find (\<lambda>s. sub_email s = email_of req) (subscribers w)")
      case (Some s)
      then have "email_of req \<in> set (map sub_email (subscribers w))"
        using find_email_None [of "email_of req" "subscribers w"] by simp
      with valid f Some show ?thesis
        unfolding email_of_def by (simp add: part000_subscribe_def Let_def Subscriber_findOne_def)
    next
      case absent: None
      then have notin: "email_of req \<notin> set (map sub_email (subscribers w))"
        using find_email_None [of "email_of req" "subscribers w"] by simp
      show ?thesis
      proof (cases "create_error e")
        case (Some err)
        with valid f absent notin show ?thesis
          unfolding email_of_def
          by (simp add: part000_subscribe_def Let_def Subscriber_findOne_def Subscriber_create_def)
      next
        case c: None
        show ?thesis
        proof (cases "countDocuments_error e")
          case (Some err)
          with valid f absent notin c show ?thesis
            unfolding email_of_def new_subscriber_def
            by (simp add: part000_subscribe_def Let_def Subscriber_findOne_def
                  Subscriber_create_def Subscriber_countDocuments_def safeSend_snd email_of_def)
        next
          case None
          with valid f absent notin c show ?thesis
            unfolding email_of_def new_subscriber_def
            by (simp add: part000_subscribe_def Let_def Subscriber_findOne_def
                  Subscriber_create_def Subscriber_countDocuments_def safeSend_snd email_of_def)
        qed
      qed
    qed
  qed
qed

lemma index_subscribe_closed:
  "index_subscribe cfg e req w =
    (if \<not> str_includes (email_of req) ''@'' then
       (Reply 400 (JObj [(''success'', JBool False), (''message'', JStr ''Invalid email'')]), w)
     else case create_error e of
       Some err \<Rightarrow>
         (if err_code err = Some 11000 then
            Reply 200 (JObj [(''success'', JBool True), (''message'', JStr ''Already subscribed'')])
          else
            Reply 500 (JObj [(''success'', JBool False), (''message'', JStr ''Server error'')]), w)
     | None \<Rightarrow>
       if email_of req \<in> set (map sub_email (subscribers w)) then
         (Reply 200 (JObj [(''success'', JBool True),
                           (''message'', JStr ''Already subscribed'')]), w)
       else
         (case countDocuments_error e of
            Some err \<Rightarrow>
              (NoReply,
               w\<lparr>subscribers := subscribers w @ [new_subscriber e req],
                 history := history w @
                   [SubscriberCreated (new_subscriber e req),
                    MailAttempt (welcomeMail cfg (email_of req)
                      (index_welcomeHtml cfg (js_or (body_field req ''name'') (VStr ''''))))]\<rparr>)
          | None \<Rightarrow>
              (Reply 200 (JObj [(''success'', JBool True),
                                (''message'', JStr ''Subscribed successfully'')]),
               w\<lparr>subscribers := subscribers w @ [new_subscriber e req],
                 history := history w @
                   [SubscriberCreated (new_subscriber e req),
                    MailAttempt (welcomeMail cfg (email_of req)
                      (index_welcomeHtml cfg (js_or (body_field req ''name'') (VStr '''')))),
                    MailAttempt (adminMail cfg ''New Subscriber Joined''
                      (subscribeAdminHtml e (email_of req)
                         (js_or (body_field req ''name'') (VStr ''''))
                         (Suc (length (subscribers w)))))]\<rparr>)))"
proof (cases "\<not> str_includes (email_of req) ''@''")
  case True
  then show ?thesis
    unfolding email_of_def by (simp add: index_subscribe_def Let_def)
next
  case valid: False
  show ?thesis
  proof (cases "create_error e")
    case (Some err)
    with valid show ?thesis
      unfolding email_of_def by (simp add: index_subscribe_def Let_def Subscriber_create_def)
  next
    case c: None
    show ?thesis
    proof (cases "email_of req \<in> set (map sub_email (subscribers w))")
      case True
      with valid c show ?thesis
        unfolding email_of_def
        by (simp add: index_subscribe_def Let_def Subscriber_create_def duplicate_key_def)
    next
      case notin: False
      show ?thesis
      proof (cases "countDocuments_error e")
        case (Some err)
        with valid notin c show ?thesis
          unfolding email_of_def new_subscriber_def
          by (simp add: index_subscribe_def Let_def Subscriber_create_def
                Subscriber_countDocuments_def safeSend_snd email_of_def)
      next
        case None
        with valid notin c show ?thesis
          unfolding email_of_def new_subscriber_def
          by (simp add: index_subscribe_def Let_def Subscriber_create_def
                Subscriber_countDocuments_def safeSend_snd email_of_def)
      qed
    qed
  qed
qed

text \<open>The unsubscribe handlers in closed form.\<close>

lemma part000_unsubscribe_closed:
  "part000_unsubscribe e req w =
    (case deleteOne_error e of
       Some err \<Rightarrow>
         (Reply 500 (JObj [(''success'', JBool False), (''message'', JStr ''Server error'')]), w)
     | None \<Rightarrow>
         (case find (\<lambda>s. sub_email s = email_of req) (subscribers w) of
            None \<Rightarrow>
              (Reply 200 (JObj [(''success'', JBool True),
                                (''message'', JStr ''Email was not subscribed''),
                                (''alreadyUnsubscribed'', JBool True)]), w)
          | Some s \<Rightarrow>
              (Reply 200 (JObj [(''success'', JBool True),
                                (''message'', JStr ''Unsubscribed successfully''),
                                (''unsubscribed'', JBool True)]),
               w\<lparr>subscribers := remove1 s (subscribers w),
                 history := history w @ [SubscriberDeleted (email_of req)]\<rparr>)))"
  unfolding email_of_def
  by (simp add: part000_unsubscribe_def Let_def Subscriber_deleteOne_def split: option.split)

lemma index_unsubscribe_closed:
  "index_unsubscribe e req w =
    (case deleteOne_error e of
       Some err \<Rightarrow>
         (Reply 500 (JObj [(''success'', JBool False), (''message'', JStr ''Server error'')]), w)
     | None \<Rightarrow>
         (Reply 200 (JObj [(''success'', JBool True),
                           (''message'', JStr ''Unsubscribed successfully'')]),
          case find (\<lambda>s. sub_email s = email_of req) (subscribers w) of
            None \<Rightarrow> w
          | Some s \<Rightarrow>
              w\<lparr>subscribers := remove1 s (subscribers w),
                history := history w @ [SubscriberDeleted (email_of req)]\<rparr>))"
  unfolding email_of_def
  by (simp add: index_unsubscribe_def Let_def Subscriber_deleteOne_def split: option.split)


lemma part000_subscribe_keeps_unique:
  "unique_emails w \<Longrightarrow> unique_emails (snd (part000_subscribe cfg e req w))"
  by (simp add: part000_subscribe_closed unique_emails_def new_subscriber_def split: option.split)


lemma index_subscribe_keeps_unique:
  "unique_emails w \<Longrightarrow> unique_emails (snd (index_subscribe cfg e req w))"
  by (simp add: index_subscribe_closed unique_emails_def new_subscriber_def split: option.split)

lemma index_subscribe_keeps_format:
  "index_format_ok w \<Longrightarrow> index_format_ok (snd (index_subscribe cfg e req w))"
  by (simp add: index_subscribe_closed index_format_ok_def new_subscriber_def split: option.split)

lemma part000_unsubscribe_keeps:
  "unique_emails w \<Longrightarrow> unique_emails (snd (part000_unsubscribe e req w))"
  "part000_format_ok w \<Longrightarrow> part000_format_ok (snd (part000_unsubscribe e req w))"
  "index_format_ok w \<Longrightarrow> index_format_ok (snd (part000_unsubscribe e req w))"
  by (auto simp add: part000_unsubscribe_closed unique_emails_def part000_format_ok_def
        index_format_ok_def remove1_keeps_distinct_emails split: option.split
        dest: notin_set_remove1)

lemma index_unsubscribe_keeps:
  "unique_emails w \<Longrightarrow> unique_emails (snd (index_unsubscribe e req w))"
  "part000_format_ok w \<Longrightarrow> part000_format_ok (snd (index_unsubscribe e req w))"
  "index_format_ok w \<Longrightarrow> index_format_ok (snd (index_unsubscribe e req w))"
  by (auto simp add: index_unsubscribe_closed unique_emails_def part000_format_ok_def
        index_format_ok_def remove1_keeps_distinct_emails split: option.split
        dest: notin_set_remove1)


subsection \<open>Facts about the concrete subscribe requests\<close>

lemma email_of_request:
  "email_of (email_request ''a@b'') = ''a@b''"
  "email_of (email_request ''a@b.com'') = ''a@b.com''"
  "email_of (email_request ''  A@B.com '') = ''a@b.com''"
  "email_of (email_request ''b@x.com'') = ''b@x.com''"
  by (simp_all add: email_of_def email_request_def request0_def body_field_def js_or_def
        normEmail_def trim_def isWhiteSpace_def toLowerCase_def lowerChar_def)

lemma env0_no_errors:
  "findOne_error (env0 ok) = None" "create_error (env0 ok) = None"
  "countDocuments_error (env0 ok) = None" "deleteOne_error (env0 ok) = None"
  by (simp_all add: env0_def)

section \<open>Properties of \<^verbatim>\<open>POST /publish\<close>\<close>

subsection \<open>C1: the fan-out and its bookkeeping\<close>

text \<open>
  C1. A publish call that is authorized, carries a title and a post URL, and meets no store
  failure attempts every subscriber of the snapshot exactly once, in order, and then the
  administrator; no failure stops the loop and none is retried. In \<^verbatim>\<open>part_000\<close> the
  answer carries the count of accepted sends and the list of the addresses whose send
  failed, and the two add up to the number of subscribers. In \<^verbatim>\<open>index.js\<close> the same
  sends are made, the answer carries the count of accepted sends only, and no failed list
  exists.
\<close>

theorem C1_fan_out:
  assumes "truthy (body_field req ''title'')" and "truthy (body_field req ''postUrl'')"
    and "find_error e = None" and "Post_create_error e = None"
  shows
    "(js_or (header (x_publish_secret req)) (body_field req ''secret'') = VStr (PUBLISH_SECRET cfg) \<longrightarrow>
        fst (part000_publish cfg e req w) =
          Reply 200 (part000_response e req (sent_count e (part000_notification cfg e req) w)
                       (length (subscribers w)) (failed_list e (part000_notification cfg e req) w))
      \<and> sent_count e (part000_notification cfg e req) w
          + length (failed_list e (part000_notification cfg e req) w) = length (subscribers w)
      \<and> sent_by w (snd (part000_publish cfg e req w))
          = map (part000_notification cfg e req) (subscribers w) @ [part000_summary cfg e req w]
      \<and> map mail_to (sent_by w (snd (part000_publish cfg e req w)))
          = map sub_email (subscribers w) @ [ADMIN_EMAIL cfg])
   \<and> (header (x_publish_secret req) = VStr (PUBLISH_SECRET cfg) \<longrightarrow>
        fst (index_publish cfg e req w) =
          Reply 200 (index_response req (sent_count e (index_notification cfg e req) w))
      \<and> reply_field ''failedEmails'' (fst (index_publish cfg e req w)) = None
      \<and> sent_count e (index_notification cfg e req) w \<le> length (subscribers w)
      \<and> sent_by w (snd (index_publish cfg e req w))
          = map (index_notification cfg e req) (subscribers w) @ [index_summary cfg e req w]
      \<and> map mail_to (sent_by w (snd (index_publish cfg e req w)))
          = map sub_email (subscribers w) @ [ADMIN_EMAIL cfg])"
proof (intro conjI impI)
  assume a: "js_or (header (x_publish_secret req)) (body_field req ''secret'') = VStr (PUBLISH_SECRET cfg)"
  note eq = part000_publish_accepted [OF a assms, of w]
  show "fst (part000_publish cfg e req w) =
          Reply 200 (part000_response e req (sent_count e (part000_notification cfg e req) w)
                       (length (subscribers w)) (failed_list e (part000_notification cfg e req) w))"
    by (simp add: eq)
  show "sent_count e (part000_notification cfg e req) w
          + length (failed_list e (part000_notification cfg e req) w) = length (subscribers w)"
    by (rule sent_plus_failed)
  show "sent_by w (snd (part000_publish cfg e req w))
          = map (part000_notification cfg e req) (subscribers w) @ [part000_summary cfg e req w]"
    by (simp add: eq sent_by_append attempts_append attempts_map_MailAttempt)
  then show "map mail_to (sent_by w (snd (part000_publish cfg e req w)))
          = map sub_email (subscribers w) @ [ADMIN_EMAIL cfg]"
    by (simp add: part000_notification_to part000_summary_def adminMail_def del: map_map)
next
  assume a: "header (x_publish_secret req) = VStr (PUBLISH_SECRET cfg)"
  note eq = index_publish_accepted [OF a assms, of w]
  show "fst (index_publish cfg e req w) =
          Reply 200 (index_response req (sent_count e (index_notification cfg e req) w))"
    by (simp add: eq)
  show "reply_field ''failedEmails'' (fst (index_publish cfg e req w)) = None"
    by (simp add: eq index_response_def)
  show "sent_count e (index_notification cfg e req) w \<le> length (subscribers w)"
    using sent_plus_failed [of e "index_notification cfg e req" w] by simp
  show "sent_by w (snd (index_publish cfg e req w))
          = map (index_notification cfg e req) (subscribers w) @ [index_summary cfg e req w]"
    by (simp add: eq sent_by_append attempts_append attempts_map_MailAttempt)
  then show "map mail_to (sent_by w (snd (index_publish cfg e req w)))
          = map sub_email (subscribers w) @ [ADMIN_EMAIL cfg]"
    by (simp add: index_notification_to index_summary_def adminMail_def del: map_map)
qed

text \<open>The specification's example in \<^verbatim>\<open>part_000\<close>: three subscribers, the send to the
  second one fails.\<close>

theorem C1_fan_out_witness:
  "fst (part000_publish cfg0 (env0 (fails_for ''b@x.com'')) (request0 (Some ''s3cret'') hello) w_three) =
     Reply 200 (JObj [(''success'', JBool True),
       (''sent'', JObj [(''subscribers'', JNum 2), (''total'', JNum 3), (''failed'', JNum 1)]),
       (''postId'', JStr ''post-1''), (''attachmentUrl'', JNull),
       (''message'', JStr ''Published successfully to 2 out of 3 subscribers''),
       (''failedEmails'', JArr [JStr ''b@x.com''])])"
proof -
  have "fst (part000_publish cfg0 (env0 (fails_for ''b@x.com'')) (request0 (Some ''s3cret'') hello) w_three) =
      Reply 200 (part000_response (env0 (fails_for ''b@x.com'')) (request0 (Some ''s3cret'') hello)
                   2 3 [''b@x.com''])"
    using C1_fan_out [of "request0 (Some ''s3cret'') hello" "env0 (fails_for ''b@x.com'')" cfg0 w_three,
        OF fixtures_ok, THEN conjunct1, THEN mp, OF fixture_secret(1)]
    by (simp add: sent3 failed3 w_three_len)
  then show ?thesis
    by (simp add: part000_response_def showNat_small attachmentUrl_of_def request0_def env0_def)
qed

text \<open>The same call in \<^verbatim>\<open>index.js\<close>: two sends are counted, and the failed recipient is
  recorded nowhere in the answer.\<close>

theorem C1_index_no_failed_list:
  "fst (index_publish cfg0 (env0 (fails_for ''b@x.com'')) (request0 (Some ''s3cret'') hello) w_three) =
     Reply 200 (JObj [(''success'', JBool True),
       (''sent'', JObj [(''subscribers'', JNum 2)]),
       (''attachmentUrl'', JNull),
       (''message'', JStr ''Published successfully to 2 subscribers'')])
   \<and> reply_field ''failedEmails''
        (fst (index_publish cfg0 (env0 (fails_for ''b@x.com'')) (request0 (Some ''s3cret'') hello)
           w_three)) = None"
  unfolding index_publish_accepted [OF fixture_secret(2) fixtures_ok] index_sent3
  by (simp add: index_response_def showNat_small attachmentUrl_of_def request0_def)

subsection \<open>C2: the post is stored before any message is sent\<close>

text \<open>
  C2. In both files a publish call either changes nothing, or it first stores one post and
  after that only hands messages to the transport, and then it answers with success
  whatever the transport said. A call that is authorized, carries a title and a post URL,
  and meets no store failure is of the second kind.
\<close>

theorem C2_persist_first:
  "(snd (part000_publish cfg e req w) = w
     \<or> (\<exists>p ms. posts (snd (part000_publish cfg e req w)) = posts w @ [p]
           \<and> history (snd (part000_publish cfg e req w)) = history w @ PostCreated p # map MailAttempt ms
           \<and> reply_status (fst (part000_publish cfg e req w)) = Some 200
           \<and> reply_field ''success'' (fst (part000_publish cfg e req w)) = Some (JBool True)))
   \<and> (snd (index_publish cfg e req w) = w
     \<or> (\<exists>p ms. posts (snd (index_publish cfg e req w)) = posts w @ [p]
           \<and> history (snd (index_publish cfg e req w)) = history w @ PostCreated p # map MailAttempt ms
           \<and> reply_status (fst (index_publish cfg e req w)) = Some 200
           \<and> reply_field ''success'' (fst (index_publish cfg e req w)) = Some (JBool True)))
   \<and> (js_or (header (x_publish_secret req)) (body_field req ''secret'') = VStr (PUBLISH_SECRET cfg)
        \<and> truthy (body_field req ''title'') \<and> truthy (body_field req ''postUrl'')
        \<and> find_error e = None \<and> Post_create_error e = None
      \<longrightarrow> snd (part000_publish cfg e req w) \<noteq> w)
   \<and> (header (x_publish_secret req) = VStr (PUBLISH_SECRET cfg)
        \<and> truthy (body_field req ''title'') \<and> truthy (body_field req ''postUrl'')
        \<and> find_error e = None \<and> Post_create_error e = None
      \<longrightarrow> snd (index_publish cfg e req w) \<noteq> w)"
proof -
  have p: "snd (part000_publish cfg e req w) = w
     \<or> (\<exists>p ms. posts (snd (part000_publish cfg e req w)) = posts w @ [p]
           \<and> history (snd (part000_publish cfg e req w)) = history w @ PostCreated p # map MailAttempt ms
           \<and> reply_status (fst (part000_publish cfg e req w)) = Some 200
           \<and> reply_field ''success'' (fst (part000_publish cfg e req w)) = Some (JBool True))"
  proof (cases "js_or (header (x_publish_secret req)) (body_field req ''secret'') = VStr (PUBLISH_SECRET cfg)
        \<and> truthy (body_field req ''title'') \<and> truthy (body_field req ''postUrl'')
        \<and> find_error e = None \<and> Post_create_error e = None")
    case True
    then have eq: "part000_publish cfg e req w =
     (Reply 200 (part000_response e req (sent_count e (part000_notification cfg e req) w)
                   (length (subscribers w)) (failed_list e (part000_notification cfg e req) w)),
      w\<lparr>posts := posts w @ [new_post e req (part000_isFull (body_field req ''sendFull''))],
        history := history w
          @ PostCreated (new_post e req (part000_isFull (body_field req ''sendFull'')))
          # map (MailAttempt \<circ> part000_notification cfg e req) (subscribers w)
          @ [MailAttempt (part000_summary cfg e req w)]\<rparr>)"
      by (simp add: part000_publish_accepted)
    show ?thesis
      unfolding eq
      by (intro disjI2 exI [of _ "new_post e req (part000_isFull (body_field req ''sendFull''))"]
            exI [of _ "map (part000_notification cfg e req) (subscribers w) @ [part000_summary cfg e req w]"])
         (simp add: part000_response_def)
  next
    case False
    have "snd (part000_publish cfg e req w) = w"
      using False by (intro part000_publish_refused(1)) (simp only: de_Morgan_conj)
    then show ?thesis ..
  qed
  have i: "snd (index_publish cfg e req w) = w
     \<or> (\<exists>p ms. posts (snd (index_publish cfg e req w)) = posts w @ [p]
           \<and> history (snd (index_publish cfg e req w)) = history w @ PostCreated p # map MailAttempt ms
           \<and> reply_status (fst (index_publish cfg e req w)) = Some 200
           \<and> reply_field ''success'' (fst (index_publish cfg e req w)) = Some (JBool True))"
  proof (cases "header (x_publish_secret req) = VStr (PUBLISH_SECRET cfg)
        \<and> truthy (body_field req ''title'') \<and> truthy (body_field req ''postUrl'')
        \<and> find_error e = None \<and> Post_create_error e = None")
    case True
    then have eq: "index_publish cfg e req w =
     (Reply 200 (index_response req (sent_count e (index_notification cfg e req) w)),
      w\<lparr>posts := posts w @ [new_post e req (index_isFull (body_field req ''sendFull''))],
        history := history w
          @ PostCreated (new_post e req (index_isFull (body_field req ''sendFull'')))
          # map (MailAttempt \<circ> index_notification cfg e req) (subscribers w)
          @ [MailAttempt (index_summary cfg e req w)]\<rparr>)"
      by (simp add: index_publish_accepted)
    show ?thesis
      unfolding eq
      by (intro disjI2 exI [of _ "new_post e req (index_isFull (body_field req ''sendFull''))"]
            exI [of _ "map (index_notification cfg e req) (subscribers w) @ [index_summary cfg e req w]"])
         (simp add: index_response_def)
  next
    case False
    have "snd (index_publish cfg e req w) = w"
      using False by (intro index_publish_refused(1)) (simp only: de_Morgan_conj)
    then show ?thesis ..
  qed
  have neq: "w\<lparr>posts := posts w @ [q], history := h\<rparr> \<noteq> w" for q h
  proof
    assume "w\<lparr>posts := posts w @ [q], history := h\<rparr> = w"
    then have "posts (w\<lparr>posts := posts w @ [q], history := h\<rparr>) = posts w" by simp
    then show False by simp
  qed
  show ?thesis
    using p i by (simp add: part000_publish_accepted index_publish_accepted neq)
qed

text \<open>A post can be stored with no delivery at all: three subscribers, every send fails,
  the post is stored and the answer is a success with a count of zero.\<close>

theorem C2_persist_first_witness:
  "length (posts (snd (part000_publish cfg0 (env0 (\<lambda>n m. False)) (request0 (Some ''s3cret'') hello)
       w_three))) = 1
   \<and> reply_field ''success''
       (fst (part000_publish cfg0 (env0 (\<lambda>n m. False)) (request0 (Some ''s3cret'') hello) w_three))
       = Some (JBool True)
   \<and> sent_count (env0 (\<lambda>n m. False))
       (part000_notification cfg0 (env0 (\<lambda>n m. False)) (request0 (Some ''s3cret'') hello)) w_three = 0"
proof -
  let ?e = "env0 (\<lambda>n m. False)" and ?req = "request0 (Some ''s3cret'') hello"
  note c2 = C2_persist_first [of cfg0 ?e ?req w_three]
  have changed: "snd (part000_publish cfg0 ?e ?req w_three) \<noteq> w_three"
    using c2 by (simp add: fixture_secret(1) fixtures_ok)
  with c2 obtain p ms where
      "posts (snd (part000_publish cfg0 ?e ?req w_three)) = posts w_three @ [p]"
      "reply_field ''success'' (fst (part000_publish cfg0 ?e ?req w_three)) = Some (JBool True)"
    by blast
  moreover have "sent_count ?e (part000_notification cfg0 ?e ?req) w_three = 0"
    by (simp add: sent_count_def w_three_def env0_def)
  ultimately show ?thesis
    by (simp add: w_three_def)
qed

subsection \<open>C3: a rejected publish call has no effect\<close>

text \<open>
  C3. In both files a publish call is answered 401 or 400 exactly when the secret does not
  match or the title or the post URL is missing (absent or empty), and such a call creates
  no post and sends no message: the state is what it was, whatever the other fields are.
\<close>

theorem C3_rejected_no_effect:
  "((reply_status (fst (part000_publish cfg e req w)) = Some 401
       \<or> reply_status (fst (part000_publish cfg e req w)) = Some 400)
      = (js_or (header (x_publish_secret req)) (body_field req ''secret'') \<noteq> VStr (PUBLISH_SECRET cfg)
         \<or> \<not> truthy (body_field req ''title'') \<or> \<not> truthy (body_field req ''postUrl'')))
   \<and> (js_or (header (x_publish_secret req)) (body_field req ''secret'') \<noteq> VStr (PUBLISH_SECRET cfg)
         \<or> \<not> truthy (body_field req ''title'') \<or> \<not> truthy (body_field req ''postUrl'')
       \<longrightarrow> snd (part000_publish cfg e req w) = w
         \<and> posts (snd (part000_publish cfg e req w)) = posts w
         \<and> sent_by w (snd (part000_publish cfg e req w)) = [])
   \<and> ((reply_status (fst (index_publish cfg e req w)) = Some 401
       \<or> reply_status (fst (index_publish cfg e req w)) = Some 400)
      = (header (x_publish_secret req) \<noteq> VStr (PUBLISH_SECRET cfg)
         \<or> \<not> truthy (body_field req ''title'') \<or> \<not> truthy (body_field req ''postUrl'')))
   \<and> (header (x_publish_secret req) \<noteq> VStr (PUBLISH_SECRET cfg)
         \<or> \<not> truthy (body_field req ''title'') \<or> \<not> truthy (body_field req ''postUrl'')
       \<longrightarrow> snd (index_publish cfg e req w) = w
         \<and> posts (snd (index_publish cfg e req w)) = posts w
         \<and> sent_by w (snd (index_publish cfg e req w)) = [])"
proof (intro conjI impI)
  show "(reply_status (fst (part000_publish cfg e req w)) = Some 401
       \<or> reply_status (fst (part000_publish cfg e req w)) = Some 400)
      = (js_or (header (x_publish_secret req)) (body_field req ''secret'') \<noteq> VStr (PUBLISH_SECRET cfg)
         \<or> \<not> truthy (body_field req ''title'') \<or> \<not> truthy (body_field req ''postUrl''))"
    by (simp add: part000_publish_status)
  show "(reply_status (fst (index_publish cfg e req w)) = Some 401
       \<or> reply_status (fst (index_publish cfg e req w)) = Some 400)
      = (header (x_publish_secret req) \<noteq> VStr (PUBLISH_SECRET cfg)
         \<or> \<not> truthy (body_field req ''title'') \<or> \<not> truthy (body_field req ''postUrl''))"
    by (simp add: index_publish_status)
next
  assume "js_or (header (x_publish_secret req)) (body_field req ''secret'') \<noteq> VStr (PUBLISH_SECRET cfg)
         \<or> \<not> truthy (body_field req ''title'') \<or> \<not> truthy (body_field req ''postUrl'')"
  then have same: "snd (part000_publish cfg e req w) = w"
    by (intro part000_publish_refused(1)) blast
  then show "snd (part000_publish cfg e req w) = w"
    and "posts (snd (part000_publish cfg e req w)) = posts w"
    and "sent_by w (snd (part000_publish cfg e req w)) = []"
    by (simp_all add: sent_by_self)
next
  assume "header (x_publish_secret req) \<noteq> VStr (PUBLISH_SECRET cfg)
         \<or> \<not> truthy (body_field req ''title'') \<or> \<not> truthy (body_field req ''postUrl'')"
  then have same: "snd (index_publish cfg e req w) = w"
    by (intro index_publish_refused(1)) blast
  then show "snd (index_publish cfg e req w) = w"
    and "posts (snd (index_publish cfg e req w)) = posts w"
    and "sent_by w (snd (index_publish cfg e req w)) = []"
    by (simp_all add: sent_by_self)
qed

text \<open>A wrong secret with otherwise valid fields, and a right secret without a post URL:
  three subscribers, nothing stored, nothing sent.\<close>

theorem C3_rejected_no_effect_witness:
  "snd (part000_publish cfg0 (env0 (\<lambda>n m. True)) (request0 (Some ''guess'') hello) w_three) = w_three
   \<and> reply_status (fst (part000_publish cfg0 (env0 (\<lambda>n m. True)) (request0 (Some ''guess'') hello)
        w_three)) = Some 401
   \<and> snd (index_publish cfg0 (env0 (\<lambda>n m. True))
        (request0 (Some ''s3cret'') [(''title'', VStr ''Hello'')]) w_three) = w_three
   \<and> reply_status (fst (index_publish cfg0 (env0 (\<lambda>n m. True))
        (request0 (Some ''s3cret'') [(''title'', VStr ''Hello'')]) w_three)) = Some 400"
proof -
  have wrong: "js_or (header (x_publish_secret (request0 (Some ''guess'') hello)))
      (body_field (request0 (Some ''guess'') hello) ''secret'') \<noteq> VStr (PUBLISH_SECRET cfg0)"
    by (simp add: request0_def header_def js_or_def cfg0_def)
  have missing: "\<not> truthy (body_field (request0 (Some ''s3cret'') [(''title'', VStr ''Hello'')]) ''postUrl'')"
    by (simp add: request0_def body_field_def)
  have title: "truthy (body_field (request0 (Some ''s3cret'') [(''title'', VStr ''Hello'')]) ''title'')"
    by (simp add: request0_def body_field_def)
  note p = C3_rejected_no_effect [of cfg0 "env0 (\<lambda>n m. True)" "request0 (Some ''guess'') hello" w_three]
  note i = C3_rejected_no_effect [of cfg0 "env0 (\<lambda>n m. True)"
      "request0 (Some ''s3cret'') [(''title'', VStr ''Hello'')]" w_three]
  have "snd (part000_publish cfg0 (env0 (\<lambda>n m. True)) (request0 (Some ''guess'') hello) w_three) = w_three"
    using p wrong by blast
  moreover have "reply_status (fst (part000_publish cfg0 (env0 (\<lambda>n m. True)) (request0 (Some ''guess'') hello)
        w_three)) = Some 401"
    using wrong by (simp add: part000_publish_status)
  moreover have "snd (index_publish cfg0 (env0 (\<lambda>n m. True))
        (request0 (Some ''s3cret'') [(''title'', VStr ''Hello'')]) w_three) = w_three"
    using i missing by blast
  moreover have "reply_status (fst (index_publish cfg0 (env0 (\<lambda>n m. True))
        (request0 (Some ''s3cret'') [(''title'', VStr ''Hello'')]) w_three)) = Some 400"
    using missing title by (simp add: index_publish_status fixture_secret(2))
  ultimately show ?thesis by blast
qed

subsection \<open>C4: the secret check\<close>




text \<open>In \<^verbatim>\<open>part_000\<close> a non-empty header decides alone: a wrong header is refused even
  when the body carries the secret.\<close>

lemma part000_header_decides:
  "reply_status (fst (part000_publish cfg0 (env0 (\<lambda>n m. True))
      (request0 (Some ''guess'') ((''secret'', VStr ''s3cret'') # hello)) w_three)) = Some 401"
  by (simp add: part000_publish_status) (simp add: request0_def header_def js_or_def cfg0_def)

subsection \<open>C5: the stored post\<close>

text \<open>
  C5. A publish call answered with success has appended exactly one post to the store: its
  title, excerpt, content, post URL and attachment are those of the request, its
  \<^verbatim>\<open>publishedAt\<close> is the time of the call, and its \<^verbatim>\<open>sendFull\<close> is true exactly when the
  field \<^verbatim>\<open>sendFull\<close> is the string \<^verbatim>\<open>"1"\<close> or the string \<^verbatim>\<open>"true"\<close> in \<^verbatim>\<open>part_000\<close>,
  and exactly when it is the string \<^verbatim>\<open>"1"\<close> in \<^verbatim>\<open>index.js\<close>.
\<close>

theorem C5_stored_post:
  "(reply_status (fst (part000_publish cfg e req w)) = Some 200 \<longrightarrow>
      posts (snd (part000_publish cfg e req w)) = posts w @
        [\<lparr>post_id = new_id e,
          post_title = ToString (body_field req ''title''),
          post_excerpt = ToString (js_or (body_field req ''excerpt'') (VStr '''')),
          post_content = ToString (js_or (body_field req ''content'') (VStr '''')),
          post_postUrl = ToString (body_field req ''postUrl''),
          post_attachmentUrl = nullable (attachmentUrl_of req),
          post_attachmentName = nullable (attachmentName_of req),
          post_sendFull = (body_field req ''sendFull'' = VStr ''1''
                           \<or> body_field req ''sendFull'' = VStr ''true''),
          post_publishedAt = now e\<rparr>])
   \<and> (reply_status (fst (index_publish cfg e req w)) = Some 200 \<longrightarrow>
      posts (snd (index_publish cfg e req w)) = posts w @
        [\<lparr>post_id = new_id e,
          post_title = ToString (body_field req ''title''),
          post_excerpt = ToString (js_or (body_field req ''excerpt'') (VStr '''')),
          post_content = ToString (js_or (body_field req ''content'') (VStr '''')),
          post_postUrl = ToString (body_field req ''postUrl''),
          post_attachmentUrl = nullable (attachmentUrl_of req),
          post_attachmentName = nullable (attachmentName_of req),
          post_sendFull = (body_field req ''sendFull'' = VStr ''1''),
          post_publishedAt = now e\<rparr>])"
proof (intro conjI impI)
  assume "reply_status (fst (part000_publish cfg e req w)) = Some 200"
  then have "js_or (header (x_publish_secret req)) (body_field req ''secret'') = VStr (PUBLISH_SECRET cfg)"
      "truthy (body_field req ''title'')" "truthy (body_field req ''postUrl'')"
      "find_error e = None" "Post_create_error e = None"
    by (simp_all add: part000_publish_status split: if_splits)
  then show "posts (snd (part000_publish cfg e req w)) = posts w @
        [\<lparr>post_id = new_id e,
          post_title = ToString (body_field req ''title''),
          post_excerpt = ToString (js_or (body_field req ''excerpt'') (VStr '''')),
          post_content = ToString (js_or (body_field req ''content'') (VStr '''')),
          post_postUrl = ToString (body_field req ''postUrl''),
          post_attachmentUrl = nullable (attachmentUrl_of req),
          post_attachmentName = nullable (attachmentName_of req),
          post_sendFull = (body_field req ''sendFull'' = VStr ''1''
                           \<or> body_field req ''sendFull'' = VStr ''true''),
          post_publishedAt = now e\<rparr>]"
    by (simp add: part000_publish_accepted new_post_def part000_isFull_def)
next
  assume "reply_status (fst (index_publish cfg e req w)) = Some 200"
  then have "header (x_publish_secret req) = VStr (PUBLISH_SECRET cfg)"
      "truthy (body_field req ''title'')" "truthy (body_field req ''postUrl'')"
      "find_error e = None" "Post_create_error e = None"
    by (simp_all add: index_publish_status split: if_splits)
  then show "posts (snd (index_publish cfg e req w)) = posts w @
        [\<lparr>post_id = new_id e,
          post_title = ToString (body_field req ''title''),
          post_excerpt = ToString (js_or (body_field req ''excerpt'') (VStr '''')),
          post_content = ToString (js_or (body_field req ''content'') (VStr '''')),
          post_postUrl = ToString (body_field req ''postUrl''),
          post_attachmentUrl = nullable (attachmentUrl_of req),
          post_attachmentName = nullable (attachmentName_of req),
          post_sendFull = (body_field req ''sendFull'' = VStr ''1''),
          post_publishedAt = now e\<rparr>]"
    by (simp add: index_publish_accepted new_post_def index_isFull_def)
qed

lemma hello_plus_ok:
  "truthy (body_field (request0 h (kv # hello)) ''title'')"
  "truthy (body_field (request0 h (kv # hello)) ''postUrl'')"
  if "fst kv \<noteq> ''title''" and "fst kv \<noteq> ''postUrl''"
  using that by (cases kv; simp add: request0_def hello_def body_field_def)+

text \<open>\<^verbatim>\<open>sendFull = "true"\<close> in \<^verbatim>\<open>part_000\<close>: the stored post is marked for full sending and
  dated with the time of the call.\<close>

theorem C5_stored_post_witness:
  "posts (snd (part000_publish cfg0 (env0 (\<lambda>n m. True))
      (request0 (Some ''s3cret'') ((''sendFull'', VStr ''true'') # hello)) w_empty)) =
     [\<lparr>post_id = ''post-1'', post_title = ''Hello'', post_excerpt = '''', post_content = '''',
       post_postUrl = ''https://x/1'', post_attachmentUrl = None, post_attachmentName = None,
       post_sendFull = True, post_publishedAt = 1762099200\<rparr>]"
proof -
  have "reply_status (fst (part000_publish cfg0 (env0 (\<lambda>n m. True))
      (request0 (Some ''s3cret'') ((''sendFull'', VStr ''true'') # hello)) w_empty)) = Some 200"
    by (simp add: part000_publish_status fixture_secret(1) hello_plus_ok fixtures_ok)
  from C5_stored_post [THEN conjunct1, THEN mp, OF this] show ?thesis
    by (simp add: request0_def hello_def body_field_def env0_def w_empty_def js_or_def
          attachmentUrl_of_def attachmentName_of_def)
qed

text \<open>The same request in \<^verbatim>\<open>index.js\<close>: the string \<^verbatim>\<open>"true"\<close> is not recognised, the
  stored post is not marked.\<close>

theorem C5_index_true_not_full:
  "map post_sendFull (posts (snd (index_publish cfg0 (env0 (\<lambda>n m. True))
      (request0 (Some ''s3cret'') ((''sendFull'', VStr ''true'') # hello)) w_empty))) = [False]
   \<and> reply_status (fst (index_publish cfg0 (env0 (\<lambda>n m. True))
      (request0 (Some ''s3cret'') ((''sendFull'', VStr ''true'') # hello)) w_empty)) = Some 200"
proof -
  have eq: "index_publish cfg0 (env0 (\<lambda>n m. True))
      (request0 (Some ''s3cret'') ((''sendFull'', VStr ''true'') # hello)) w_empty
    = (Reply 200 (index_response (request0 (Some ''s3cret'') ((''sendFull'', VStr ''true'') # hello))
         (sent_count (env0 (\<lambda>n m. True))
            (index_notification cfg0 (env0 (\<lambda>n m. True))
               (request0 (Some ''s3cret'') ((''sendFull'', VStr ''true'') # hello))) w_empty)),
      w_empty\<lparr>posts := posts w_empty @
          [new_post (env0 (\<lambda>n m. True)) (request0 (Some ''s3cret'') ((''sendFull'', VStr ''true'') # hello))
             (index_isFull (body_field (request0 (Some ''s3cret'') ((''sendFull'', VStr ''true'') # hello))
                ''sendFull''))],
        history := history w_empty
          @ PostCreated (new_post (env0 (\<lambda>n m. True))
               (request0 (Some ''s3cret'') ((''sendFull'', VStr ''true'') # hello))
               (index_isFull (body_field (request0 (Some ''s3cret'') ((''sendFull'', VStr ''true'') # hello))
                  ''sendFull'')))
          # map (MailAttempt \<circ> index_notification cfg0 (env0 (\<lambda>n m. True))
               (request0 (Some ''s3cret'') ((''sendFull'', VStr ''true'') # hello)))
              (subscribers w_empty)
          @ [MailAttempt (index_summary cfg0 (env0 (\<lambda>n m. True))
               (request0 (Some ''s3cret'') ((''sendFull'', VStr ''true'') # hello)) w_empty)]\<rparr>)"
    by (rule index_publish_accepted) (simp_all add: fixture_secret(2) hello_plus_ok fixtures_ok)
  show ?thesis
    unfolding eq
    by (simp add: new_post_def index_isFull_def w_empty_def) (simp add: request0_def body_field_def)
qed

subsection \<open>C6: what the notification shows\<close>

text \<open>
  C6. In both files the messages of an accepted publish call are built by one function of
  the request and the subscriber. When \<^verbatim>\<open>sendFull\<close> is recognised and the content is not
  empty, the body of every notification contains the content (\<^verbatim>\<open>"FULL"\<close> for
  \<^verbatim>\<open>content="FULL"\<close>). When it is not recognised and the excerpt is not empty, the body
  contains the excerpt (\<^verbatim>\<open>"EXC"\<close>), and the content is not put into the message: replacing
  the content by any other content that is empty or not as the first one is leaves the whole
  message as it is. (The text of the content can still occur in the body where the title,
  the excerpt or another part of the message has it.)
\<close>

theorem C6_notification_body:
  "(js_or (header (x_publish_secret req)) (body_field req ''secret'') = VStr (PUBLISH_SECRET cfg)
      \<and> truthy (body_field req ''title'') \<and> truthy (body_field req ''postUrl'')
      \<and> find_error e = None \<and> Post_create_error e = None
    \<longrightarrow> sent_by w (snd (part000_publish cfg e req w))
          = map (part000_notification cfg e req) (subscribers w) @ [part000_summary cfg e req w])
   \<and> (part000_isFull (body_field req ''sendFull'') \<and> truthy (body_field req ''content'')
    \<longrightarrow> str_includes (mail_html (part000_notification cfg e req s))
          (ToString (body_field req ''content'')))
   \<and> (\<not> part000_isFull (body_field req ''sendFull'') \<and> truthy (body_field req ''excerpt'')
    \<longrightarrow> str_includes (mail_html (part000_notification cfg e req s))
          (ToString (body_field req ''excerpt'')))
   \<and> (\<not> part000_isFull (body_field req ''sendFull'') \<and> truthy c = truthy (body_field req ''content'')
    \<longrightarrow> part000_notification cfg e (req\<lparr>req_body := (''content'', c) # req_body req\<rparr>) s
          = part000_notification cfg e req s)
   \<and> (header (x_publish_secret req) = VStr (PUBLISH_SECRET cfg)
      \<and> truthy (body_field req ''title'') \<and> truthy (body_field req ''postUrl'')
      \<and> find_error e = None \<and> Post_create_error e = None
    \<longrightarrow> sent_by w (snd (index_publish cfg e req w))
          = map (index_notification cfg e req) (subscribers w) @ [index_summary cfg e req w])
   \<and> (index_isFull (body_field req ''sendFull'') \<and> truthy (body_field req ''content'')
    \<longrightarrow> str_includes (mail_html (index_notification cfg e req s))
          (ToString (body_field req ''content'')))
   \<and> (\<not> index_isFull (body_field req ''sendFull'') \<and> truthy (body_field req ''excerpt'')
    \<longrightarrow> str_includes (mail_html (index_notification cfg e req s))
          (ToString (body_field req ''excerpt'')))
   \<and> (\<not> index_isFull (body_field req ''sendFull'') \<and> truthy c = truthy (body_field req ''content'')
    \<longrightarrow> index_notification cfg e (req\<lparr>req_body := (''content'', c) # req_body req\<rparr>) s
          = index_notification cfg e req s)"
proof (intro conjI impI; (elim conjE)?)
  assume "js_or (header (x_publish_secret req)) (body_field req ''secret'') = VStr (PUBLISH_SECRET cfg)"
    and "truthy (body_field req ''title'')" and "truthy (body_field req ''postUrl'')"
    and "find_error e = None" and "Post_create_error e = None"
  then show "sent_by w (snd (part000_publish cfg e req w))
          = map (part000_notification cfg e req) (subscribers w) @ [part000_summary cfg e req w]"
    by (simp add: part000_publish_accepted sent_by_append attempts_append attempts_map_MailAttempt)
next
  assume "header (x_publish_secret req) = VStr (PUBLISH_SECRET cfg)"
    and "truthy (body_field req ''title'')" and "truthy (body_field req ''postUrl'')"
    and "find_error e = None" and "Post_create_error e = None"
  then show "sent_by w (snd (index_publish cfg e req w))
          = map (index_notification cfg e req) (subscribers w) @ [index_summary cfg e req w]"
    by (simp add: index_publish_accepted sent_by_append attempts_append attempts_map_MailAttempt)
next
  assume "part000_isFull (body_field req ''sendFull'')" and "truthy (body_field req ''content'')"
  then have "emailBody_of (part000_isFull (body_field req ''sendFull''))
      (body_field req ''content'') (body_field req ''excerpt'') = body_field req ''content''"
    by (simp add: emailBody_of_def js_or_def)
  then show "str_includes (mail_html (part000_notification cfg e req s))
          (ToString (body_field req ''content''))"
    using publishHtml_includes_body [of cfg e _ "body_field req ''content''"]
    by (simp add: part000_notification_def part000_mailOptions_def)
next
  assume "index_isFull (body_field req ''sendFull'')" and "truthy (body_field req ''content'')"
  then have "emailBody_of (index_isFull (body_field req ''sendFull''))
      (body_field req ''content'') (body_field req ''excerpt'') = body_field req ''content''"
    by (simp add: emailBody_of_def js_or_def)
  then show "str_includes (mail_html (index_notification cfg e req s))
          (ToString (body_field req ''content''))"
    using publishHtml_includes_body [of cfg e _ "body_field req ''content''"]
    by (simp add: index_notification_def index_mailOptions_def)
next
  assume "\<not> part000_isFull (body_field req ''sendFull'')" and "truthy (body_field req ''excerpt'')"
  then have "emailBody_of (part000_isFull (body_field req ''sendFull''))
      (body_field req ''content'') (body_field req ''excerpt'') = body_field req ''excerpt''"
    by (simp add: emailBody_of_def js_or_def)
  then show "str_includes (mail_html (part000_notification cfg e req s))
          (ToString (body_field req ''excerpt''))"
    using publishHtml_includes_body [of cfg e _ "body_field req ''excerpt''"]
    by (simp add: part000_notification_def part000_mailOptions_def)
next
  assume "\<not> index_isFull (body_field req ''sendFull'')" and "truthy (body_field req ''excerpt'')"
  then have "emailBody_of (index_isFull (body_field req ''sendFull''))
      (body_field req ''content'') (body_field req ''excerpt'') = body_field req ''excerpt''"
    by (simp add: emailBody_of_def js_or_def)
  then show "str_includes (mail_html (index_notification cfg e req s))
          (ToString (body_field req ''excerpt''))"
    using publishHtml_includes_body [of cfg e _ "body_field req ''excerpt''"]
    by (simp add: index_notification_def index_mailOptions_def)
next
  assume "\<not> part000_isFull (body_field req ''sendFull'')"
    and "truthy c = truthy (body_field req ''content'')"
  then show "part000_notification cfg e (req\<lparr>req_body := (''content'', c) # req_body req\<rparr>) s
          = part000_notification cfg e req s"
    by (simp add: part000_notification_def part000_mailOptions_def body_field_override
          emailBody_of_def hint_of_def js_and_def attachmentUrl_of_def attachmentName_of_def
          unsubscribeLink_def split: option.splits)
next
  assume "\<not> index_isFull (body_field req ''sendFull'')"
    and "truthy c = truthy (body_field req ''content'')"
  then show "index_notification cfg e (req\<lparr>req_body := (''content'', c) # req_body req\<rparr>) s
          = index_notification cfg e req s"
    by (simp add: index_notification_def index_mailOptions_def body_field_override
          emailBody_of_def hint_of_def js_and_def attachmentUrl_of_def attachmentName_of_def
          unsubscribeLink_def split: option.splits)
qed

lemma article_fields:
  "body_field (request0 h (article t sf)) ''title'' = VStr t"
  "body_field (request0 h (article t sf)) ''postUrl'' = VStr ''https://x/1''"
  "body_field (request0 h (article t sf)) ''content'' = VStr ''FULL''"
  "body_field (request0 h (article t sf)) ''excerpt'' = VStr ''EXC''"
  "body_field (request0 h (article t sf)) ''sendFull'' = VStr sf"
  by (simp_all add: request0_def article_def body_field_def)

lemma showNat_2026: "showNat 2026 = ''2026''"
  by (simp add: showNat.simps digit_def)

lemma encode_a: "encodeURIComponent ''a@x.com'' = ''a%40x.com''"
  by (simp add: encodeURIComponent_def percentEncode_def unreserved_def hexDigit_def)

text \<open>The specification's example: title \<^verbatim>\<open>"Hello"\<close>, content \<^verbatim>\<open>"FULL"\<close>, excerpt
  \<^verbatim>\<open>"EXC"\<close>. With \<^verbatim>\<open>sendFull="1"\<close> the body contains \<^verbatim>\<open>"FULL"\<close>; with
  \<^verbatim>\<open>sendFull="0"\<close> it contains \<^verbatim>\<open>"EXC"\<close> and not \<^verbatim>\<open>"FULL"\<close>.\<close>

theorem C6_notification_body_witness:
  "str_includes (mail_html (part000_notification cfg0 (env0 (\<lambda>n m. True))
       (request0 (Some ''s3cret'') (article ''Hello'' ''1'')) (subscriber_of ''a@x.com''))) ''FULL''
   \<and> str_includes (mail_html (part000_notification cfg0 (env0 (\<lambda>n m. True))
       (request0 (Some ''s3cret'') (article ''Hello'' ''0'')) (subscriber_of ''a@x.com''))) ''EXC''
   \<and> \<not> str_includes (mail_html (part000_notification cfg0 (env0 (\<lambda>n m. True))
       (request0 (Some ''s3cret'') (article ''Hello'' ''0'')) (subscriber_of ''a@x.com''))) ''FULL''"
proof -
  let ?e = "env0 (\<lambda>n m. True)" and ?s = "subscriber_of ''a@x.com''"
  let ?full = "request0 (Some ''s3cret'') (article ''Hello'' ''1'')"
  let ?exc = "request0 (Some ''s3cret'') (article ''Hello'' ''0'')"
  have "str_includes (mail_html (part000_notification cfg0 ?e ?full ?s)) ''FULL''"
    using C6_notification_body [of ?full cfg0 ?e w_three ?s]
    by (simp add: article_fields part000_isFull_def)
  moreover have "str_includes (mail_html (part000_notification cfg0 ?e ?exc ?s)) ''EXC''"
    using C6_notification_body [of ?exc cfg0 ?e w_three ?s]
    by (simp add: article_fields part000_isFull_def)
  moreover have "\<not> str_includes (mail_html (part000_notification cfg0 ?e ?exc ?s)) ''FULL''"
  proof
    assume "str_includes (mail_html (part000_notification cfg0 ?e ?exc ?s)) ''FULL''"
    then have "set ''FULL'' \<subseteq> set (mail_html (part000_notification cfg0 ?e ?exc ?s))"
      by (rule str_includes_set)
    then have "CHR ''L'' \<in> set (mail_html (part000_notification cfg0 ?e ?exc ?s))"
      by simp
    moreover have "mail_html (part000_notification cfg0 ?e ?exc ?s) =
        publishHtml cfg0 ?e (VStr ''Hello'') (VStr ''EXC'') True (VStr ''https://x/1'') VNull VNull
          ''https://news.example.com/unsubscribe?email=a%40x.com''"
      by (simp add: part000_notification_def part000_mailOptions_def article_fields
            emailBody_of_def hint_of_def part000_isFull_def js_or_def js_and_def)
         (simp add: attachmentUrl_of_def attachmentName_of_def unsubscribeLink_def encode_a
            request0_def subscriber_of_def)
    moreover have "CHR ''L'' \<notin> set (publishHtml cfg0 ?e (VStr ''Hello'') (VStr ''EXC'') True
          (VStr ''https://x/1'') VNull VNull ''https://news.example.com/unsubscribe?email=a%40x.com'')"
      by (simp add: publishHtml_def fullArticleHint_def attachmentBlock_def showNat_2026
            cfg0_def env0_def)
    ultimately show False by simp
  qed
  ultimately show ?thesis by blast
qed

text \<open>The same article under the title \<^verbatim>\<open>"FULL"\<close>, sent as an excerpt: the body of the
  first notification contains the text of the content, through the title.\<close>

theorem C6_content_text_in_body:
  "\<not> part000_isFull (body_field (request0 (Some ''s3cret'') (article ''FULL'' ''0'')) ''sendFull'')
   \<and> body_field (request0 (Some ''s3cret'') (article ''FULL'' ''0'')) ''excerpt'' = VStr ''EXC''
   \<and> body_field (request0 (Some ''s3cret'') (article ''FULL'' ''0'')) ''content'' = VStr ''FULL''
   \<and> mail_to (hd (sent_by w_three (snd (part000_publish cfg0 (env0 (\<lambda>n m. True))
        (request0 (Some ''s3cret'') (article ''FULL'' ''0'')) w_three)))) = ''a@x.com''
   \<and> str_includes (mail_html (hd (sent_by w_three (snd (part000_publish cfg0 (env0 (\<lambda>n m. True))
        (request0 (Some ''s3cret'') (article ''FULL'' ''0'')) w_three))))) ''FULL''"
proof -
  let ?e = "env0 (\<lambda>n m. True)" and ?req = "request0 (Some ''s3cret'') (article ''FULL'' ''0'')"
  have eq: "part000_publish cfg0 ?e ?req w_three =
     (Reply 200 (part000_response ?e ?req (sent_count ?e (part000_notification cfg0 ?e ?req) w_three)
                   (length (subscribers w_three)) (failed_list ?e (part000_notification cfg0 ?e ?req) w_three)),
      w_three\<lparr>posts := posts w_three @ [new_post ?e ?req (part000_isFull (body_field ?req ''sendFull''))],
        history := history w_three
          @ PostCreated (new_post ?e ?req (part000_isFull (body_field ?req ''sendFull'')))
          # map (MailAttempt \<circ> part000_notification cfg0 ?e ?req) (subscribers w_three)
          @ [MailAttempt (part000_summary cfg0 ?e ?req w_three)]\<rparr>)"
    by (rule part000_publish_accepted) (simp_all add: fixture_secret(1) article_fields fixtures_ok)
  have first: "hd (sent_by w_three (snd (part000_publish cfg0 ?e ?req w_three)))
      = part000_notification cfg0 ?e ?req (subscriber_of ''a@x.com'')"
    unfolding eq
    by (simp add: sent_by_append attempts_append attempts_map_MailAttempt) (simp add: w_three_def)
  have "str_includes (mail_html (part000_notification cfg0 ?e ?req (subscriber_of ''a@x.com''))) ''FULL''"
    using publishHtml_includes_title [of cfg0 ?e "VStr ''FULL''"]
    by (simp add: part000_notification_def part000_mailOptions_def article_fields)
  then show ?thesis
    unfolding first
    by (simp add: article_fields part000_isFull_def part000_notification_def part000_mailOptions_def
          subscriber_of_def)
qed

subsection \<open>C10: publishing never touches the subscribers\<close>

text \<open>
  C10. In both files, whatever the request, the answers of the transport and the failures
  of the store, a publish call leaves the collection of subscribers exactly as it was.
\<close>

theorem C10_subscribers_unchanged:
  "subscribers (snd (part000_publish cfg e req w)) = subscribers w
   \<and> subscribers (snd (index_publish cfg e req w)) = subscribers w"
  by (simp add: part000_publish_def index_publish_def Let_def Subscriber_find_def Post_create_def
        part000_sendAll_spec index_sendAll_spec safeSend_eq split: option.splits)

text \<open>An accepted call with three subscribers and one failing send, in both files.\<close>

theorem C10_subscribers_unchanged_witness:
  "map sub_email (subscribers (snd (part000_publish cfg0 (env0 (fails_for ''b@x.com''))
      (request0 (Some ''s3cret'') hello) w_three))) = [''a@x.com'', ''b@x.com'', ''c@x.com'']
   \<and> map sub_email (subscribers (snd (index_publish cfg0 (env0 (fails_for ''b@x.com''))
      (request0 (Some ''s3cret'') hello) w_three))) = [''a@x.com'', ''b@x.com'', ''c@x.com'']"
  using C10_subscribers_unchanged [of cfg0 "env0 (fails_for ''b@x.com'')"
      "request0 (Some ''s3cret'') hello" w_three]
  by (simp add: w_three_def subscriber_of_def)

section \<open>Properties of \<^verbatim>\<open>POST /subscribe\<close> and \<^verbatim>\<open>POST /unsubscribe\<close>\<close>

subsection \<open>C7: the format check\<close>




subsection \<open>C8: an address that is already subscribed\<close>




subsection \<open>C9: unsubscribing\<close>

text \<open>
  C9. An unsubscribe request for an absent address leaves the state as it is, and with
  distinct addresses in the store asking again changes nothing more: after one request,
  any number of further requests for the same address leave the state of the first. When
  the store answers, the request is always answered with success. \<^verbatim>\<open>part_000\<close> tells the two
  cases apart: an absent address is answered "Email was not subscribed" with
  \<^verbatim>\<open>alreadyUnsubscribed\<close>, a removed one "Unsubscribed successfully" with
  \<^verbatim>\<open>unsubscribed\<close>. \<^verbatim>\<open>index.js\<close> gives one answer, "Unsubscribed successfully", in both
  cases.
\<close>

theorem C9_unsubscribe:
  "(deleteOne_error e = None \<longrightarrow>
      reply_status (fst (part000_unsubscribe e req w)) = Some 200
      \<and> reply_field ''success'' (fst (part000_unsubscribe e req w)) = Some (JBool True))
   \<and> (deleteOne_error e = None \<and> email_of req \<notin> set (map sub_email (subscribers w)) \<longrightarrow>
      part000_unsubscribe e req w =
        (Reply 200 (JObj [(''success'', JBool True),
                          (''message'', JStr ''Email was not subscribed''),
                          (''alreadyUnsubscribed'', JBool True)]), w))
   \<and> (deleteOne_error e = None \<and> unique_emails w \<longrightarrow>
      part000_unsubscribe e req (snd (part000_unsubscribe e req w)) =
        (Reply 200 (JObj [(''success'', JBool True),
                          (''message'', JStr ''Email was not subscribed''),
                          (''alreadyUnsubscribed'', JBool True)]),
         snd (part000_unsubscribe e req w)))
   \<and> (email_of req \<notin> set (map sub_email (subscribers w)) \<longrightarrow>
      snd (part000_unsubscribe e req w) = w)
   \<and> (unique_emails w \<longrightarrow>
      ((\<lambda>v. snd (part000_unsubscribe e req v)) ^^ Suc n) w = snd (part000_unsubscribe e req w))
   \<and> (deleteOne_error e = None \<longrightarrow>
      fst (index_unsubscribe e req w) =
        Reply 200 (JObj [(''success'', JBool True),
                         (''message'', JStr ''Unsubscribed successfully'')]))
   \<and> (email_of req \<notin> set (map sub_email (subscribers w)) \<longrightarrow>
      snd (index_unsubscribe e req w) = w)
   \<and> (unique_emails w \<longrightarrow>
      ((\<lambda>v. snd (index_unsubscribe e req v)) ^^ Suc n) w = snd (index_unsubscribe e req w))"
proof -
  let ?notsub = "Reply 200 (JObj [(''success'', JBool True),
                          (''message'', JStr ''Email was not subscribed''),
                          (''alreadyUnsubscribed'', JBool True)])"
  have gone_p: "email_of req \<notin> set (map sub_email (subscribers (snd (part000_unsubscribe e req w))))"
    if "deleteOne_error e = None" "unique_emails w"
  proof (cases "find (\<lambda>s. sub_email s = email_of req) (subscribers w)")
    case None
    with that show ?thesis
      using find_email_None [of "email_of req" "subscribers w"]
      by (simp add: part000_unsubscribe_closed)
  next
    case (Some s)
    with that removed_email_gone [of "subscribers w" "email_of req" s] show ?thesis
      by (simp add: part000_unsubscribe_closed unique_emails_def)
  qed
  have gone_i: "email_of req \<notin> set (map sub_email (subscribers (snd (index_unsubscribe e req w))))"
    if "deleteOne_error e = None" "unique_emails w"
  proof (cases "find (\<lambda>s. sub_email s = email_of req) (subscribers w)")
    case None
    with that show ?thesis
      using find_email_None [of "email_of req" "subscribers w"]
      by (simp add: index_unsubscribe_closed)
  next
    case (Some s)
    with that removed_email_gone [of "subscribers w" "email_of req" s] show ?thesis
      by (simp add: index_unsubscribe_closed unique_emails_def)
  qed
  have absent_p: "part000_unsubscribe e req v = (?notsub, v)"
    if "deleteOne_error e = None" "email_of req \<notin> set (map sub_email (subscribers v))" for v
    using that find_email_None [of "email_of req" "subscribers v"]
    by (simp add: part000_unsubscribe_closed)
  have same_p: "snd (part000_unsubscribe e req v) = v"
    if "email_of req \<notin> set (map sub_email (subscribers v))" for v
    using that find_email_None [of "email_of req" "subscribers v"]
    by (simp add: part000_unsubscribe_closed split: option.split)
  have same_i: "snd (index_unsubscribe e req v) = v"
    if "email_of req \<notin> set (map sub_email (subscribers v))" for v
    using that find_email_None [of "email_of req" "subscribers v"]
    by (simp add: index_unsubscribe_closed split: option.split)
  have twice_p: "snd (part000_unsubscribe e req (snd (part000_unsubscribe e req w)))
      = snd (part000_unsubscribe e req w)" if u: "unique_emails w"
  proof (cases "deleteOne_error e")
    case None
    then show ?thesis by (intro same_p gone_p u)
  next
    case (Some err)
    then show ?thesis by (simp add: part000_unsubscribe_closed)
  qed
  have twice_i: "snd (index_unsubscribe e req (snd (index_unsubscribe e req w)))
      = snd (index_unsubscribe e req w)" if u: "unique_emails w"
  proof (cases "deleteOne_error e")
    case None
    then show ?thesis by (intro same_i gone_i u)
  next
    case (Some err)
    then show ?thesis by (simp add: index_unsubscribe_closed)
  qed
  have c1: "reply_status (fst (part000_unsubscribe e req w)) = Some 200
      \<and> reply_field ''success'' (fst (part000_unsubscribe e req w)) = Some (JBool True)"
    if "deleteOne_error e = None"
    using that by (simp add: part000_unsubscribe_closed split: option.split)
  have c3: "part000_unsubscribe e req (snd (part000_unsubscribe e req w)) =
        (?notsub, snd (part000_unsubscribe e req w))"
    if "deleteOne_error e = None" "unique_emails w"
    using that by (intro absent_p gone_p)
  have c4: "((\<lambda>v. snd (part000_unsubscribe e req v)) ^^ Suc n) w = snd (part000_unsubscribe e req w)"
    if a: "unique_emails w"
  proof (induction n)
    case 0
    show ?case by simp
  next
    case (Suc n)
    have "((\<lambda>v. snd (part000_unsubscribe e req v)) ^^ Suc (Suc n)) w
        = snd (part000_unsubscribe e req (((\<lambda>v. snd (part000_unsubscribe e req v)) ^^ Suc n) w))"
      by simp
    also have "\<dots> = snd (part000_unsubscribe e req (snd (part000_unsubscribe e req w)))"
      by (simp only: Suc.IH)
    also have "\<dots> = snd (part000_unsubscribe e req w)"
      by (rule twice_p [OF a])
    finally show ?case .
  qed
  have c5: "fst (index_unsubscribe e req w) =
        Reply 200 (JObj [(''success'', JBool True),
                         (''message'', JStr ''Unsubscribed successfully'')])"
    if "deleteOne_error e = None"
    using that by (simp add: index_unsubscribe_closed)
  have c7: "((\<lambda>v. snd (index_unsubscribe e req v)) ^^ Suc n) w = snd (index_unsubscribe e req w)"
    if a: "unique_emails w"
  proof (induction n)
    case 0
    show ?case by simp
  next
    case (Suc n)
    have "((\<lambda>v. snd (index_unsubscribe e req v)) ^^ Suc (Suc n)) w
        = snd (index_unsubscribe e req (((\<lambda>v. snd (index_unsubscribe e req v)) ^^ Suc n) w))"
      by simp
    also have "\<dots> = snd (index_unsubscribe e req (snd (index_unsubscribe e req w)))"
      by (simp only: Suc.IH)
    also have "\<dots> = snd (index_unsubscribe e req w)"
      by (rule twice_i [OF a])
    finally show ?case .
  qed
  from c1 absent_p [of w] c3 same_p [of w] c4 c5 same_i [of w] c7 show ?thesis by blast
qed

lemma find_b_in_three:
  "find (\<lambda>s. sub_email s = ''b@x.com'') (subscribers w_three) = Some (subscriber_of ''b@x.com'')"
  by (simp add: w_three_def subscriber_of_def)

lemma w_three_unique: "unique_emails w_three"
  by (simp add: unique_emails_def w_three_def subscriber_of_def)

text \<open>Unsubscribing \<^verbatim>\<open>b@x.com\<close> from three subscribers in \<^verbatim>\<open>part_000\<close>: the first request
  removes the record, the second one reports that the address was not subscribed and
  changes nothing.\<close>

theorem C9_unsubscribe_witness:
  "map sub_email (subscribers (snd (part000_unsubscribe (env0 (\<lambda>n m. True))
       (email_request ''b@x.com'') w_three))) = [''a@x.com'', ''c@x.com'']
   \<and> part000_unsubscribe (env0 (\<lambda>n m. True)) (email_request ''b@x.com'')
        (snd (part000_unsubscribe (env0 (\<lambda>n m. True)) (email_request ''b@x.com'') w_three))
      = (Reply 200 (JObj [(''success'', JBool True),
                          (''message'', JStr ''Email was not subscribed''),
                          (''alreadyUnsubscribed'', JBool True)]),
         snd (part000_unsubscribe (env0 (\<lambda>n m. True)) (email_request ''b@x.com'') w_three))"
proof -
  have "map sub_email (subscribers (snd (part000_unsubscribe (env0 (\<lambda>n m. True))
       (email_request ''b@x.com'') w_three))) = [''a@x.com'', ''c@x.com'']"
    by (simp add: part000_unsubscribe_closed env0_no_errors email_of_request find_b_in_three)
       (simp add: w_three_def subscriber_of_def)
  moreover have "part000_unsubscribe (env0 (\<lambda>n m. True)) (email_request ''b@x.com'')
        (snd (part000_unsubscribe (env0 (\<lambda>n m. True)) (email_request ''b@x.com'') w_three))
      = (Reply 200 (JObj [(''success'', JBool True),
                          (''message'', JStr ''Email was not subscribed''),
                          (''alreadyUnsubscribed'', JBool True)]),
         snd (part000_unsubscribe (env0 (\<lambda>n m. True)) (email_request ''b@x.com'') w_three))"
    using C9_unsubscribe [of "env0 (\<lambda>n m. True)" "email_request ''b@x.com''" w_three 0]
      w_three_unique
    by (simp add: env0_no_errors)
  ultimately show ?thesis by blast
qed

text \<open>In \<^verbatim>\<open>index.js\<close> a request for an address that was never subscribed is answered like
  a removal: nothing in the answer says that the address was not subscribed.\<close>

theorem C9_index_no_removed_flag:
  "index_unsubscribe (env0 (\<lambda>n m. True)) (email_request ''a@b.com'') w_empty =
     (Reply 200 (JObj [(''success'', JBool True), (''message'', JStr ''Unsubscribed successfully'')]),
      w_empty)
   \<and> reply_field ''alreadyUnsubscribed''
        (fst (index_unsubscribe (env0 (\<lambda>n m. True)) (email_request ''a@b.com'') w_empty)) = None
   \<and> fst (index_unsubscribe (env0 (\<lambda>n m. True)) (email_request ''a@b.com'') w_empty)
      = fst (index_unsubscribe (env0 (\<lambda>n m. True)) (email_request ''a@b.com'')
           (w_empty\<lparr>subscribers := [subscriber_of ''a@b.com'']\<rparr>))"
  by (simp add: index_unsubscribe_closed env0_no_errors email_of_request)
     (simp add: w_empty_def)

end
